theory Spec2Isabelle
  imports Complex_Main "HOL-Library.AList"
begin

section \<open>Text helpers\<close>

text \<open>
  Python strings are modelled as \<^typ>\<open>string\<close>; the accented letters of the Spanish
  status messages are the two bytes of their UTF-8 encoding.
\<close>

definition a_acute :: string where
  "a_acute = [CHR 0xC3, CHR 0xA1]"

definition o_acute :: string where
  "o_acute = [CHR 0xC3, CHR 0xB3]"

definition digit_char :: "nat \<Rightarrow> char" where
  "digit_char d = ''0123456789'' ! d"

text \<open>\<^verbatim>\<open>str(n)\<close> for a non-negative integer.\<close>

fun str_nat :: "nat \<Rightarrow> string" where
  "str_nat n = (if n < 10 then [digit_char n] else str_nat (n div 10) @ [digit_char (n mod 10)])"

declare str_nat.simps [simp del]

text \<open>The format \<^verbatim>\<open>{i:02d}\<close>: at least two digits, padded with a zero.\<close>

definition pad2 :: "nat \<Rightarrow> string" where
  "pad2 i = (if i < 10 then ''0'' @ str_nat i else str_nat i)"

definition is_space :: "char \<Rightarrow> bool" where
  "is_space c \<longleftrightarrow> c \<in> set [CHR 0x20, CHR 0x09, CHR 0x0A, CHR 0x0B, CHR 0x0C, CHR 0x0D,
                              CHR 0x1C, CHR 0x1D, CHR 0x1E, CHR 0x1F]"

text \<open>\<^verbatim>\<open>s.strip()\<close> on the ASCII whitespace characters.\<close>

definition strip :: "string \<Rightarrow> string" where
  "strip t = rev (dropWhile is_space (rev (dropWhile is_space t)))"

text \<open>
  \<^verbatim>\<open>Path(a) / b\<close> rendered with \<^verbatim>\<open>str\<close>, for a directory \<open>a\<close> in normal form: an absolute
  \<open>b\<close> replaces \<open>a\<close>, an empty \<open>b\<close> leaves it.
\<close>

definition path_join :: "string \<Rightarrow> string \<Rightarrow> string" where
  "path_join a b = (if b = [] then a else if hd b = CHR ''/'' then b else a @ ''/'' @ b)"

text \<open>\<^verbatim>\<open>os.path.basename\<close>: what follows the last slash.\<close>

definition basename :: "string \<Rightarrow> string" where
  "basename p = rev (takeWhile (\<lambda>c. c \<noteq> CHR ''/'') (rev p))"

text \<open>\<^verbatim>\<open>repr\<close> of a string that holds no quote and needs no escape.\<close>

definition quoted :: "string \<Rightarrow> string" where
  "quoted t = [CHR 0x27] @ t @ [CHR 0x27]"

text \<open>Truthiness of an optional string, as \<^verbatim>\<open>config.get(key)\<close> is tested.\<close>

fun truthy :: "string option \<Rightarrow> bool" where
  "truthy None = False"
| "truthy (Some t) = (t \<noteq> [])"

section \<open>Data model\<close>

text \<open>
  The configuration record \<^verbatim>\<open>config.json\<close>, as \<^verbatim>\<open>json.load\<close> returns it. The keys the
  code reads with \<^verbatim>\<open>[...]\<close> are fields; the keys it reads with \<^verbatim>\<open>.get\<close> or only writes are
  optional. \<open>images\<close> holds the \<^verbatim>\<open>filename\<close> of each image descriptor, \<open>narration\<close> is
  \<^verbatim>\<open>audio.narration.filename\<close> and \<open>thumbnail\<close> is \<^verbatim>\<open>thumbnail.filename\<close>.
\<close>

record config =
  id_cfg :: string
  status :: "string option"
  progress :: "int option"
  message :: "string option"
  images :: "string list"
  narration :: string
  selectedSoundtrack :: "string option"
  selectedFilter :: "string option"
  thumbnail :: "string option"
  outputFile :: "string option"
  completedAt :: "string option"

text \<open>What the file \<^verbatim>\<open>config.json\<close> holds on disk.\<close>

datatype file_content = Absent | Empty_File | Json config | Unparseable string

text \<open>
  The external invocations. Each constructor stands for one fixed argument vector of the
  source, and carries the paths that vary:
  \<^item> \<open>Scale_Crop i o\<close>: \<^verbatim>\<open>ffmpeg -y -i i -vf scale=1920:1080:...,crop=1920:1080 -q:v 2 o\<close>
  \<^item> \<open>To_Wav i o\<close>: \<^verbatim>\<open>ffmpeg -y -i i -acodec pcm_s16le -ar 44100 -ac 2 o\<close>
  \<^item> \<open>To_Wav_Quiet i o\<close>: the same with \<^verbatim>\<open>-af volume=0.3\<close>
  \<^item> \<open>Concat_Encode l o\<close>: \<^verbatim>\<open>ffmpeg -y -f concat -safe 0 -i l -vf fps=30,scale=1920:1080 -c:v libx264 -pix_fmt yuv420p o\<close>
  \<^item> \<open>Still_Clip i o\<close>: \<^verbatim>\<open>ffmpeg -y -loop 1 -i i -t 0.2 -vf scale=1920:1080 -c:v libx264 -pix_fmt yuv420p o\<close>
  \<^item> \<open>Concat_Copy l o\<close>: \<^verbatim>\<open>ffmpeg -y -f concat -safe 0 -i l -c copy o\<close>
  \<^item> \<open>Mux v as m o\<close>: \<^verbatim>\<open>ffmpeg -y -i v\<close>, one \<^verbatim>\<open>-i\<close> for each audio input, the mapping \<open>m\<close>, \<open>o\<close>
  \<^item> \<open>Chroma_Overlay v f o\<close>: the colour-key overlay of \<open>f\<close> on \<open>v\<close>
  \<^item> \<open>Probe_Duration v\<close>: \<^verbatim>\<open>ffprobe -v quiet -show_entries format=duration ... v\<close>
  \<^item> \<open>Fade_Out v st o\<close>: the 1.5 second fades of video and audio starting at \<open>st\<close>
  \<^item> \<open>Date\<close>: \<^verbatim>\<open>date\<close>
\<close>

datatype mux_mode = Map_First_Audio | Amix_Two

datatype cmd =
    Scale_Crop string string
  | To_Wav string string
  | To_Wav_Quiet string string
  | Concat_Encode string string
  | Still_Clip string string
  | Concat_Copy string string
  | Mux string "string list" mux_mode string
  | Chroma_Overlay string string string
  | Probe_Duration string
  | Fade_Out string rat string
  | Date

text \<open>
  What \<^verbatim>\<open>subprocess.run\<close> can do: the child ran and ended with a return code and a
  captured standard output, or it could not be started (an \<^verbatim>\<open>OSError\<close>, for instance
  when the executable is not installed).
\<close>

datatype outcome = Exited int string | Not_Started string

text \<open>The exceptions of the model, each with its \<^verbatim>\<open>str\<close>.\<close>

datatype exn =
    CalledProcessError string
  | OSError string
  | ValueError string
  | IndexError string
  | JSONDecodeError string

fun str_exn :: "exn \<Rightarrow> string" where
  "str_exn (CalledProcessError t) = t"
| "str_exn (OSError t) = t"
| "str_exn (ValueError t) = t"
| "str_exn (IndexError t) = t"
| "str_exn (JSONDecodeError t) = t"

fun is_cpe :: "exn \<Rightarrow> bool" where
  "is_cpe (CalledProcessError t) = True"
| "is_cpe e = False"

text \<open>
  The world outside the process, fixed during a run: which paths exist, what each
  invocation does, how \<^verbatim>\<open>float\<close> reads a text (\<open>None\<close> is \<^verbatim>\<open>ValueError\<close>), whether
  \<^verbatim>\<open>mkdir\<close> fails on a path, and the text of a \<^verbatim>\<open>CalledProcessError\<close>.
\<close>

record env =
  exists_path :: "string \<Rightarrow> bool"
  run :: "cmd \<Rightarrow> outcome"
  parse_float :: "string \<Rightarrow> rat option"
  mkdir_error :: "string \<Rightarrow> string option"
  cpe_text :: "cmd \<Rightarrow> int \<Rightarrow> string"

text \<open>
  What an observer sees of a run, in order: the invocations, the status lines that
  \<^verbatim>\<open>update_status\<close> prints, the warnings printed, the text files written and the
  directories created.
\<close>

datatype event =
    Run cmd
  | Status string int string
  | Warning string
  | Write_Text string "string list"
  | Mkdir string

text \<open>The processor object together with the configuration file and the observations.\<close>

record state =
  project_dir :: string
  config :: config
  disk :: file_content
  trace :: "event list"

type_synonym 'a action = "state \<Rightarrow> (exn + 'a) \<times> state"

definition config_path :: "state \<Rightarrow> string" where
  "config_path s = path_join (project_dir s) ''config.json''"

definition output_dir :: "state \<Rightarrow> string" where
  "output_dir s = path_join (project_dir s) ''output''"

definition images_dir :: "state \<Rightarrow> string" where
  "images_dir s = path_join (project_dir s) ''images''"

definition audio_dir :: "state \<Rightarrow> string" where
  "audio_dir s = path_join (project_dir s) ''audio''"

section \<open>The constructor\<close>


section \<open>Status recorder\<close>

text \<open>
  \<^verbatim>\<open>update_status\<close> in its four steps: the assignments to the dictionary, \<^verbatim>\<open>open(.., "w")\<close>
  (which truncates the file), \<^verbatim>\<open>json.dump\<close> with the close of the file, and the print.
\<close>

definition set_status :: "string \<Rightarrow> int \<Rightarrow> string \<Rightarrow> state \<Rightarrow> state" where
  "set_status st p m s =
     s\<lparr>config := (config s)\<lparr>status := Some st, progress := Some p,
                             message := (if m \<noteq> [] then Some m else message (config s))\<rparr>\<rparr>"

definition open_w :: "state \<Rightarrow> state" where
  "open_w s = s\<lparr>disk := Empty_File\<rparr>"

definition json_dump :: "state \<Rightarrow> state" where
  "json_dump s = s\<lparr>disk := Json (config s)\<rparr>"

definition print_status :: "string \<Rightarrow> int \<Rightarrow> string \<Rightarrow> state \<Rightarrow> state" where
  "print_status st p m s = s\<lparr>trace := trace s @ [Status st p m]\<rparr>"

definition update_status :: "string \<Rightarrow> int \<Rightarrow> string \<Rightarrow> state \<Rightarrow> state" where
  "update_status st p m s = print_status st p m (json_dump (open_w (set_status st p m s)))"


definition warn :: "string \<Rightarrow> state \<Rightarrow> state" where
  "warn t s = s\<lparr>trace := trace s @ [Warning t]\<rparr>"

section \<open>Media engine boundary\<close>

text \<open>\<^verbatim>\<open>subprocess.run(cmd, check=True, capture_output=True)\<close>; the result is the output.\<close>

definition run_checked :: "env \<Rightarrow> cmd \<Rightarrow> string action" where
  "run_checked e c s =
     (let s' = s\<lparr>trace := trace s @ [Run c]\<rparr>
      in case run e c of
           Exited rc out \<Rightarrow>
             if rc = 0 then (Inr out, s') else (Inl (CalledProcessError (cpe_text e c rc)), s')
         | Not_Started t \<Rightarrow> (Inl (OSError t), s'))"

text \<open>\<^verbatim>\<open>subprocess.run(cmd, capture_output=True)\<close>, without \<^verbatim>\<open>check\<close>.\<close>

definition run_unchecked :: "env \<Rightarrow> cmd \<Rightarrow> string action" where
  "run_unchecked e c s =
     (let s' = s\<lparr>trace := trace s @ [Run c]\<rparr>
      in case run e c of
           Exited rc out \<Rightarrow> (Inr out, s')
         | Not_Started t \<Rightarrow> (Inl (OSError t), s'))"

section \<open>Validation stage\<close>

definition validate_files :: "env \<Rightarrow> state \<Rightarrow> bool \<times> state" where
  "validate_files e s =
     (if length (images (config s)) \<noteq> 30 then
        (False, update_status ''error'' 0
           (''Se requieren 30 im'' @ a_acute @ ''genes, encontradas: ''
              @ str_nat (length (images (config s)))) s)
      else
        case find (\<lambda>filename. \<not> exists_path e (path_join (images_dir s) filename))
               (images (config s)) of
          Some filename \<Rightarrow>
            (False, update_status ''error'' 0 (''Imagen no encontrada: '' @ filename) s)
        | None \<Rightarrow>
            if \<not> exists_path e (path_join (audio_dir s) (narration (config s))) then
              (False, update_status ''error'' 0
                 (''Audio de narraci'' @ o_acute @ ''n no encontrado: '' @ narration (config s)) s)
            else
              (True, update_status ''processing'' 10 ''Archivos validados correctamente'' s))"

section \<open>Image normalization stage\<close>

definition processed_dir :: "state \<Rightarrow> string" where
  "processed_dir s = path_join (output_dir s) ''processed_images''"

text \<open>\<^verbatim>\<open>Path.mkdir(exist_ok=True)\<close>.\<close>

definition mkdir :: "env \<Rightarrow> string \<Rightarrow> unit action" where
  "mkdir e p s =
     (let s' = s\<lparr>trace := trace s @ [Mkdir p]\<rparr>
      in case mkdir_error e p of None \<Rightarrow> (Inr (), s') | Some t \<Rightarrow> (Inl (OSError t), s'))"

text \<open>
  The progress \<^verbatim>\<open>10 + int((i + 1) / n * 20)\<close>. The source computes the quotient in
  double precision; for every \<open>n < 400\<close> and \<open>i < n\<close> the result is the integer quotient
  written here.
\<close>

definition image_progress :: "nat \<Rightarrow> nat \<Rightarrow> int" where
  "image_progress i n = 10 + int (((i + 1) * 20) div n)"

text \<open>
  The loop over \<^verbatim>\<open>enumerate(self.config["images"])\<close>: \<open>i\<close> is the index, the list holds
  the filenames still to do, \<open>image_paths\<close> the outputs so far.
\<close>

fun prepare_images_loop :: "env \<Rightarrow> nat \<Rightarrow> string list \<Rightarrow> string list \<Rightarrow> string list action" where
  "prepare_images_loop e i [] image_paths s = (Inr image_paths, s)"
| "prepare_images_loop e i (filename # rest) image_paths s =
     (let input_path = path_join (images_dir s) filename;
          output_path = path_join (processed_dir s) (''img_'' @ pad2 i @ ''.jpg'')
      in case run_checked e (Scale_Crop input_path output_path) s of
           (Inr out, s1) \<Rightarrow>
             prepare_images_loop e (i + 1) rest (image_paths @ [output_path])
               (update_status ''processing'' (image_progress i (length (images (config s1))))
                  (''Procesando imagen '' @ str_nat (i + 1) @ ''/30'') s1)
         | (Inl x, s1) \<Rightarrow>
             if is_cpe x then
               (Inr [], update_status ''error'' 0
                  (''Error procesando imagen '' @ str_nat (i + 1) @ '': '' @ str_exn x) s1)
             else (Inl x, s1))"

definition prepare_images :: "env \<Rightarrow> string list action" where
  "prepare_images e s =
     (case mkdir e (processed_dir s) s of
        (Inl x, s1) \<Rightarrow> (Inl x, s1)
      | (Inr u, s1) \<Rightarrow> prepare_images_loop e 0 (images (config s1)) [] s1)"

section \<open>Audio normalization stage\<close>

definition prepare_audio :: "env \<Rightarrow> (string \<times> string) list action" where
  "prepare_audio e s =
     (let narration_input = path_join (audio_dir s) (narration (config s));
          narration_output = path_join (output_dir s) ''narration.wav''
      in case run_checked e (To_Wav narration_input narration_output) s of
           (Inl x, s1) \<Rightarrow>
             if is_cpe x then
               (Inr [], update_status ''error'' 0 (''Error procesando audio: '' @ str_exn x) s1)
             else (Inl x, s1)
         | (Inr out, s1) \<Rightarrow>
             (let audio_files = AList.update ''narration'' narration_output [];
                  s2 = update_status ''processing'' 35
                         (''Audio de narraci'' @ o_acute @ ''n procesado'') s1
              in if truthy (selectedSoundtrack (config s2)) then
                   (let soundtrack_path =
                          ''public/sounds/'' @ the (selectedSoundtrack (config s2)) @ ''.mp3''
                    in if exists_path e soundtrack_path then
                         (let soundtrack_output = path_join (output_dir s2) ''soundtrack.wav''
                          in case run_checked e (To_Wav_Quiet soundtrack_path soundtrack_output) s2 of
                               (Inr out2, s3) \<Rightarrow>
                                 (Inr (AList.update ''soundtrack'' soundtrack_output audio_files),
                                  update_status ''processing'' 40 ''Soundtrack procesado'' s3)
                             | (Inl x, s3) \<Rightarrow>
                                 if is_cpe x then
                                   (Inr audio_files,
                                    warn (''Warning: Error processing soundtrack: '' @ str_exn x) s3)
                                 else (Inl x, s3))
                       else (Inr audio_files, s2))
                 else (Inr audio_files, s2)))"

section \<open>Timeline assembly stage\<close>

definition write_text :: "string \<Rightarrow> string list \<Rightarrow> state \<Rightarrow> state" where
  "write_text p ls s = s\<lparr>trace := trace s @ [Write_Text p ls]\<rparr>"

definition create_video_timeline :: "env \<Rightarrow> string list \<Rightarrow> string action" where
  "create_video_timeline e image_paths s =
     (let images_video = path_join (output_dir s) ''images_video.mp4'';
          filelist_path = path_join (output_dir s) ''images_list.txt'';
          entries = concat (map (\<lambda>img_path. [''file '' @ [CHR 0x27] @ img_path @ [CHR 0x27],
                                               ''duration 2'']) image_paths)
      in if image_paths = [] then
           (Inl (IndexError ''list index out of range''), write_text filelist_path entries s)
         else
           (let s1 = write_text filelist_path
                       (entries @ [''file '' @ [CHR 0x27] @ last image_paths @ [CHR 0x27]]) s
            in case run_checked e (Concat_Encode filelist_path images_video) s1 of
                 (Inr out, s2) \<Rightarrow>
                   (Inr images_video,
                    update_status ''processing'' 50 ''Timeline de video creado'' s2)
               | (Inl x, s2) \<Rightarrow>
                   if is_cpe x then
                     (Inr [], update_status ''error'' 0
                        (''Error creando timeline: '' @ str_exn x) s2)
                   else (Inl x, s2)))"

section \<open>Thumbnail stage\<close>

definition add_thumbnail :: "env \<Rightarrow> string \<Rightarrow> string action" where
  "add_thumbnail e video_path s =
     (case thumbnail (config s) of
        None \<Rightarrow> (Inr video_path, s)
      | Some thumbnail_filename \<Rightarrow>
          (let thumbnail_path = path_join (images_dir s) thumbnail_filename;
               thumbnail_video = path_join (output_dir s) ''thumbnail_video.mp4'';
               final_with_thumb = path_join (output_dir s) ''with_thumbnail.mp4''
           in case run_checked e (Still_Clip thumbnail_path thumbnail_video) s of
                (Inl x, s1) \<Rightarrow>
                  if is_cpe x then
                    (Inr video_path,
                     warn (''Warning: Error creating thumbnail video: '' @ str_exn x) s1)
                  else (Inl x, s1)
              | (Inr out, s1) \<Rightarrow>
                  (let concat_list = path_join (output_dir s1) ''concat_list.txt'';
                       s2 = write_text concat_list
                              [''file '' @ [CHR 0x27] @ thumbnail_video @ [CHR 0x27],
                               ''file '' @ [CHR 0x27] @ video_path @ [CHR 0x27]] s1
                   in case run_checked e (Concat_Copy concat_list final_with_thumb) s2 of
                        (Inr out2, s3) \<Rightarrow>
                          (Inr final_with_thumb,
                           update_status ''processing'' 60 ''Miniatura agregada'' s3)
                      | (Inl x, s3) \<Rightarrow>
                          if is_cpe x then
                            (Inr video_path,
                             warn (''Warning: Error adding thumbnail: '' @ str_exn x) s3)
                          else (Inl x, s3))))"

section \<open>Audio muxing stage\<close>

definition no_audio_message :: string where
  "no_audio_message = ''No audio tracks available''"

definition add_audio :: "env \<Rightarrow> string \<Rightarrow> (string \<times> string) list \<Rightarrow> string action" where
  "add_audio e video_path audio_files s =
     (let output_path = path_join (output_dir s) ''with_audio.mp4'';
          inputs1 = (case map_of audio_files ''narration'' of
                       Some f \<Rightarrow> [(f, ''1:a'')] | None \<Rightarrow> []);
          inputs2 = (case map_of audio_files ''soundtrack'' of
                       Some f \<Rightarrow> inputs1 @ [(f, ''2:a'')] | None \<Rightarrow> inputs1)
      in if length inputs2 = 1 \<or> length inputs2 = 2 then
           (case run_checked e
                   (Mux video_path (map fst inputs2)
                      (if length inputs2 = 1 then Map_First_Audio else Amix_Two) output_path) s of
              (Inr out, s1) \<Rightarrow>
                (Inr output_path, update_status ''processing'' 75 ''Audio agregado al video'' s1)
            | (Inl x, s1) \<Rightarrow>
                if is_cpe x then
                  (Inr [], update_status ''error'' 0 (''Error agregando audio: '' @ str_exn x) s1)
                else (Inl x, s1))
         else (Inr [], update_status ''error'' 0 no_audio_message s))"

section \<open>Visual effects stage\<close>

definition apply_effects :: "env \<Rightarrow> string \<Rightarrow> string action" where
  "apply_effects e video_path s =
     (if \<not> truthy (selectedFilter (config s)) then (Inr video_path, s)
      else
        (let filter_file = ''public/filters/'' @ the (selectedFilter (config s)) @ ''.mp4''
         in if \<not> exists_path e filter_file then
              (Inr video_path, warn (''Warning: Filter file not found: '' @ filter_file) s)
            else
              (let output_path = path_join (output_dir s) ''with_effects.mp4''
               in case run_checked e (Chroma_Overlay video_path filter_file output_path) s of
                    (Inr out, s1) \<Rightarrow>
                      (Inr output_path,
                       update_status ''processing'' 85 ''Efectos visuales aplicados'' s1)
                  | (Inl x, s1) \<Rightarrow>
                      if is_cpe x then
                        (Inr video_path,
                         warn (''Warning: Error applying effects: '' @ str_exn x) s1)
                      else (Inl x, s1))))"

section \<open>Fade-out finalization stage\<close>

text \<open>
  The duration is a double in the source; the model keeps the number that \<^verbatim>\<open>float\<close>
  reads as a rational and subtracts exactly.
\<close>

definition add_fade_out :: "env \<Rightarrow> string \<Rightarrow> string action" where
  "add_fade_out e video_path s =
     (let output_path = path_join (output_dir s) ''final_video.mp4''
      in case run_checked e (Probe_Duration video_path) s of
           (Inl x, s1) \<Rightarrow>
             if is_cpe x then
               (Inr video_path,
                warn (''Warning: Could not get video duration: '' @ str_exn x) s1)
             else (Inl x, s1)
         | (Inr out, s1) \<Rightarrow>
             (case parse_float e (strip out) of
                None \<Rightarrow>
                  (Inl (ValueError (''could not convert string to float: ''
                                      @ quoted (strip out))), s1)
              | Some duration \<Rightarrow>
                  (let fade_start = duration - 3 / 2
                   in case run_checked e (Fade_Out video_path fade_start output_path) s1 of
                        (Inr out2, s2) \<Rightarrow>
                          (Inr output_path,
                           update_status ''processing'' 95 ''Fade-out agregado'' s2)
                      | (Inl x, s2) \<Rightarrow>
                          if is_cpe x then
                            (Inr video_path,
                             warn (''Warning: Error adding fade-out: '' @ str_exn x) s2)
                          else (Inl x, s2))))"

section \<open>Pipeline coordinator\<close>

definition bnd :: "'a action \<Rightarrow> ('a \<Rightarrow> 'b action) \<Rightarrow> 'b action" where
  "bnd m f s = (case m s of (Inl x, s') \<Rightarrow> (Inl x, s') | (Inr v, s') \<Rightarrow> f v s')"

definition ret :: "'a \<Rightarrow> 'a action" where
  "ret v s = (Inr v, s)"

text \<open>The last statements of the \<^verbatim>\<open>try\<close> block, from \<^verbatim>\<open>self.config["status"] = "completed"\<close>.\<close>

definition finish :: "env \<Rightarrow> string \<Rightarrow> bool action" where
  "finish e final_video s =
     (let s1 = s\<lparr>config := (config s)\<lparr>status := Some ''completed'', progress := Some 100,
                                       outputFile := Some (basename final_video)\<rparr>\<rparr>
      in case run_unchecked e Date s1 of
           (Inl x, s2) \<Rightarrow> (Inl x, s2)
         | (Inr out, s2) \<Rightarrow>
             (Inr True,
              json_dump (open_w (s2\<lparr>config := (config s2)\<lparr>completedAt := Some (strip out)\<rparr>\<rparr>))))"

text \<open>The body of the \<^verbatim>\<open>try\<close> block of \<^verbatim>\<open>process\<close>.\<close>

definition process_try :: "env \<Rightarrow> bool action" where
  "process_try e =
     bnd (\<lambda>s. case validate_files e s of (ok, s') \<Rightarrow> (Inr ok, s')) (\<lambda>ok.
       if \<not> ok then ret False else
     bnd (prepare_images e) (\<lambda>image_paths.
       if image_paths = [] then ret False else
     bnd (prepare_audio e) (\<lambda>audio_files.
       if audio_files = [] then ret False else
     bnd (create_video_timeline e image_paths) (\<lambda>video_path.
       if video_path = [] then ret False else
     bnd (add_thumbnail e video_path) (\<lambda>video_path.
     bnd (add_audio e video_path audio_files) (\<lambda>video_path.
       if video_path = [] then ret False else
     bnd (apply_effects e video_path) (\<lambda>video_path.
     bnd (add_fade_out e video_path) (\<lambda>final_video.
     finish e final_video))))))))"

definition process :: "env \<Rightarrow> state \<Rightarrow> bool \<times> state" where
  "process e s =
     (case process_try e s of
        (Inr ok, s') \<Rightarrow> (ok, s')
      | (Inl x, s') \<Rightarrow> (False, update_status ''error'' 0 (''Error inesperado: '' @ str_exn x) s'))"

section \<open>Command line\<close>

text \<open>
  How the interpreter ends: \<^verbatim>\<open>sys.exit\<close> with a code, or an exception that nothing
  caught (a traceback, and the exit code 1).
\<close>

datatype exit = Exit int | Uncaught exn


section \<open>Observations of a run\<close>

text \<open>The status updates of a run, in order: the status and the progress of each.\<close>

fun statuses :: "event list \<Rightarrow> (string \<times> int) list" where
  "statuses [] = []"
| "statuses (Status st p m # evs) = (st, p) # statuses evs"
| "statuses (ev # evs) = statuses evs"

text \<open>
  The invariant of the status record, on a sequence of updates: of two successive
  updates that both say \<open>processing\<close>, the later has at least the progress of the
  earlier; an update that says \<open>error\<close> has progress 0.
\<close>

fun monotone_processing :: "(string \<times> int) list \<Rightarrow> bool" where
  "monotone_processing (u # v # us) =
     ((fst u = ''processing'' \<and> fst v = ''processing'' \<longrightarrow> snd u \<le> snd v)
      \<and> monotone_processing (v # us))"
| "monotone_processing us = True"

definition errors_at_zero :: "(string \<times> int) list \<Rightarrow> bool" where
  "errors_at_zero us \<longleftrightarrow> list_all (\<lambda>u. fst u = ''error'' \<longrightarrow> snd u = 0) us"

text \<open>The warnings printed during a run.\<close>

fun warnings :: "event list \<Rightarrow> string list" where
  "warnings [] = []"
| "warnings (Warning w # evs) = w # warnings evs"
| "warnings (ev # evs) = warnings evs"

text \<open>The invocations of a run.\<close>

fun invocations :: "event list \<Rightarrow> cmd list" where
  "invocations [] = []"
| "invocations (Run c # evs) = c # invocations evs"
| "invocations (ev # evs) = invocations evs"

section \<open>Reasoning about stages\<close>

text \<open>
  A stage started in a state that satisfies \<open>P\<close> ends in a result and a state that
  satisfy \<open>Q\<close>.
\<close>

definition hoare :: "(state \<Rightarrow> bool) \<Rightarrow> 'a action \<Rightarrow> ((exn + 'a) \<Rightarrow> state \<Rightarrow> bool) \<Rightarrow> bool" where
  "hoare P m Q \<longleftrightarrow> (\<forall>s r s'. P s \<longrightarrow> m s = (r, s') \<longrightarrow> Q r s')"

text \<open>
  The three ways a stage ends: with an exception (\<open>E\<close>), with the value that makes the
  coordinator stop (\<open>F\<close>), with a value it goes on with (\<open>S\<close>).
\<close>

definition stage_post :: "('a \<Rightarrow> bool) \<Rightarrow> (state \<Rightarrow> bool) \<Rightarrow> (state \<Rightarrow> bool) \<Rightarrow> ('a \<Rightarrow> state \<Rightarrow> bool) \<Rightarrow>
    (exn + 'a) \<Rightarrow> state \<Rightarrow> bool" where
  "stage_post fatal E F S r s = (case r of Inl x \<Rightarrow> E s | Inr v \<Rightarrow> if fatal v then F s else S v s)"

text \<open>The observations so far begin with \<open>t\<close>.\<close>

definition trace_from :: "event list \<Rightarrow> state \<Rightarrow> bool" where
  "trace_from t s \<longleftrightarrow> (\<exists>evs. trace s = t @ evs)"

text \<open>What \<^verbatim>\<open>subprocess.run\<close> with \<^verbatim>\<open>check=True\<close> returns or raises.\<close>

definition run_result :: "env \<Rightarrow> cmd \<Rightarrow> exn + string" where
  "run_result e c =
     (case run e c of
        Exited rc out \<Rightarrow> if rc = 0 then Inr out else Inl (CalledProcessError (cpe_text e c rc))
      | Not_Started t \<Rightarrow> Inl (OSError t))"

text \<open>The rest of the \<^verbatim>\<open>try\<close> block after the audio stage, and after the validation.\<close>

definition pipeline_after_audio :: "env \<Rightarrow> string list \<Rightarrow> (string \<times> string) list \<Rightarrow> bool action" where
  "pipeline_after_audio e image_paths audio_files =
     bnd (create_video_timeline e image_paths) (\<lambda>video_path.
       if video_path = [] then ret False else
     bnd (add_thumbnail e video_path) (\<lambda>video_path.
     bnd (add_audio e video_path audio_files) (\<lambda>video_path.
       if video_path = [] then ret False else
     bnd (apply_effects e video_path) (\<lambda>video_path.
     bnd (add_fade_out e video_path) (\<lambda>final_video.
     finish e final_video)))))"

definition pipeline_after_validation :: "env \<Rightarrow> bool action" where
  "pipeline_after_validation e =
     bnd (prepare_images e) (\<lambda>image_paths.
       if image_paths = [] then ret False else
     bnd (prepare_audio e) (\<lambda>audio_files.
       if audio_files = [] then ret False else
     pipeline_after_audio e image_paths audio_files))"

text \<open>
  The status updates so far all say \<open>processing\<close>, in non-decreasing progress of at
  most \<open>b\<close>.
\<close>

definition procs :: "int \<Rightarrow> (string \<times> int) list \<Rightarrow> bool" where
  "procs b us \<longleftrightarrow> (\<forall>u\<in>set us. fst u = ''processing'' \<and> snd u \<le> b) \<and> sorted (map snd us)"

definition processing_upto :: "int \<Rightarrow> state \<Rightarrow> bool" where
  "processing_upto b s \<longleftrightarrow> procs b (statuses (trace s))"

text \<open>Such a sequence of updates, followed by one update to \<open>error\<close> with progress 0.\<close>

definition failed_run :: "state \<Rightarrow> bool" where
  "failed_run s \<longleftrightarrow> (\<exists>pre. statuses (trace s) = pre @ [(''error'', 0)] \<and> procs 95 pre)"

text \<open>What the status updates of a run look like, while it runs or after it failed.\<close>

definition run_shape :: "state \<Rightarrow> bool" where
  "run_shape s \<longleftrightarrow> failed_run s \<or> processing_upto 95 s"

text \<open>The error of the audio muxing stage for a dictionary without tracks has not been recorded.\<close>

definition no_audio_error :: "state \<Rightarrow> bool" where
  "no_audio_error s \<longleftrightarrow> Status ''error'' 0 no_audio_message \<notin> set (trace s)"

text \<open>
  The invocations of the audio normalization stage started in \<open>s\<close>, the path of the
  soundtrack asset, and the state after the narration has been converted.
\<close>

definition narration_cmd :: "state \<Rightarrow> cmd" where
  "narration_cmd s =
     To_Wav (path_join (audio_dir s) (narration (config s)))
       (path_join (output_dir s) ''narration.wav'')"

definition soundtrack_path :: "state \<Rightarrow> string" where
  "soundtrack_path s = ''public/sounds/'' @ the (selectedSoundtrack (config s)) @ ''.mp3''"

definition soundtrack_cmd :: "state \<Rightarrow> cmd" where
  "soundtrack_cmd s = To_Wav_Quiet (soundtrack_path s) (path_join (output_dir s) ''soundtrack.wav'')"

definition after_narration :: "state \<Rightarrow> state" where
  "after_narration s =
     update_status ''processing'' 35 (''Audio de narraci'' @ o_acute @ ''n procesado'')
       (s\<lparr>trace := trace s @ [Run (narration_cmd s)]\<rparr>)"

text \<open>Two states of the same project: the directory and the inputs of the stages agree.\<close>

definition same_project :: "state \<Rightarrow> state \<Rightarrow> bool" where
  "same_project s s' \<longleftrightarrow>
     project_dir s' = project_dir s \<and> images (config s') = images (config s) \<and>
     narration (config s') = narration (config s) \<and>
     selectedSoundtrack (config s') = selectedSoundtrack (config s) \<and>
     selectedFilter (config s') = selectedFilter (config s) \<and>
     thumbnail (config s') = thumbnail (config s)"

text \<open>The lines that the timeline stage writes to \<^verbatim>\<open>images_list.txt\<close>.\<close>

definition images_list_text :: "string list \<Rightarrow> string list" where
  "images_list_text image_paths =
     concat (map (\<lambda>img_path. [''file '' @ [CHR 0x27] @ img_path @ [CHR 0x27], ''duration 2''])
               image_paths)
     @ [''file '' @ [CHR 0x27] @ last image_paths @ [CHR 0x27]]"

section \<open>Example inputs\<close>

text \<open>A project with thirty images, a narration and the soundtrack \<open>epic\<close> selected.\<close>

definition example_images :: "string list" where
  "example_images =
     [''photo_00.png'', ''photo_01.png'', ''photo_02.png'', ''photo_03.png'', ''photo_04.png'',
      ''photo_05.png'', ''photo_06.png'', ''photo_07.png'', ''photo_08.png'', ''photo_09.png'',
      ''photo_10.png'', ''photo_11.png'', ''photo_12.png'', ''photo_13.png'', ''photo_14.png'',
      ''photo_15.png'', ''photo_16.png'', ''photo_17.png'', ''photo_18.png'', ''photo_19.png'',
      ''photo_20.png'', ''photo_21.png'', ''photo_22.png'', ''photo_23.png'', ''photo_24.png'',
      ''photo_25.png'', ''photo_26.png'', ''photo_27.png'', ''photo_28.png'', ''photo_29.png'']"

definition example_config :: config where
  "example_config =
     \<lparr>id_cfg = ''demo'', status = Some ''pending'', progress = Some 0,
      message = Some ''En cola'', images = example_images, narration = ''voice.mp3'',
      selectedSoundtrack = Some ''epic'', selectedFilter = None, thumbnail = None,
      outputFile = None, completedAt = None\<rparr>"

definition example_state :: state where
  "example_state =
     \<lparr>project_dir = ''proj'', config = example_config, disk = Json example_config, trace = []\<rparr>"

text \<open>The same project with two images only.\<close>

definition state_two_images :: state where
  "state_two_images =
     example_state\<lparr>config := example_config\<lparr>images := [''photo_00.png'', ''photo_01.png'']\<rparr>\<rparr>"

text \<open>A world in which every file exists and every invocation succeeds.\<close>

definition env_all_ok :: env where
  "env_all_ok =
     \<lparr>exists_path = (\<lambda>p. True),
      run = (\<lambda>c. case c of
               Probe_Duration v \<Rightarrow> Exited 0 (''60.2'' @ [CHR 0x0A])
             | _ \<Rightarrow> Exited 0 []),
      parse_float = (\<lambda>t. if t = ''60.2'' then Some (301 / 5) else None),
      mkdir_error = (\<lambda>p. None),
      cpe_text = (\<lambda>c rc. ''Command returned non-zero exit status '' @ str_nat (nat rc))\<rparr>"

text \<open>Worlds in which one file is missing.\<close>

definition env_image_missing :: env where
  "env_image_missing = env_all_ok\<lparr>exists_path := (\<lambda>p. p \<noteq> ''proj/images/photo_03.png'')\<rparr>"

definition env_narration_missing :: env where
  "env_narration_missing = env_all_ok\<lparr>exists_path := (\<lambda>p. p \<noteq> ''proj/audio/voice.mp3'')\<rparr>"

text \<open>A world in which the conversion of the second image ends with return code 1.\<close>

definition env_second_image_fails :: env where
  "env_second_image_fails =
     env_all_ok\<lparr>run := (\<lambda>c. case c of
        Scale_Crop i out \<Rightarrow> if i = ''proj/images/photo_01.png'' then Exited 1 [] else Exited 0 []
      | _ \<Rightarrow> Exited 0 [])\<rparr>"

text \<open>The outputs of the image stage for the example project.\<close>

definition example_outputs :: "string list" where
  "example_outputs =
     [''proj/output/processed_images/img_00.jpg'', ''proj/output/processed_images/img_01.jpg'',
      ''proj/output/processed_images/img_02.jpg'', ''proj/output/processed_images/img_03.jpg'',
      ''proj/output/processed_images/img_04.jpg'', ''proj/output/processed_images/img_05.jpg'',
      ''proj/output/processed_images/img_06.jpg'', ''proj/output/processed_images/img_07.jpg'',
      ''proj/output/processed_images/img_08.jpg'', ''proj/output/processed_images/img_09.jpg'',
      ''proj/output/processed_images/img_10.jpg'', ''proj/output/processed_images/img_11.jpg'',
      ''proj/output/processed_images/img_12.jpg'', ''proj/output/processed_images/img_13.jpg'',
      ''proj/output/processed_images/img_14.jpg'', ''proj/output/processed_images/img_15.jpg'',
      ''proj/output/processed_images/img_16.jpg'', ''proj/output/processed_images/img_17.jpg'',
      ''proj/output/processed_images/img_18.jpg'', ''proj/output/processed_images/img_19.jpg'',
      ''proj/output/processed_images/img_20.jpg'', ''proj/output/processed_images/img_21.jpg'',
      ''proj/output/processed_images/img_22.jpg'', ''proj/output/processed_images/img_23.jpg'',
      ''proj/output/processed_images/img_24.jpg'', ''proj/output/processed_images/img_25.jpg'',
      ''proj/output/processed_images/img_26.jpg'', ''proj/output/processed_images/img_27.jpg'',
      ''proj/output/processed_images/img_28.jpg'', ''proj/output/processed_images/img_29.jpg'']"

text \<open>Worlds for the audio stage: the soundtrack asset is missing, a conversion fails.\<close>

definition env_soundtrack_missing :: env where
  "env_soundtrack_missing = env_all_ok\<lparr>exists_path := (\<lambda>p. p \<noteq> ''public/sounds/epic.mp3'')\<rparr>"

definition env_narration_fails :: env where
  "env_narration_fails =
     env_all_ok\<lparr>run := (\<lambda>c. case c of To_Wav i out \<Rightarrow> Exited 1 [] | _ \<Rightarrow> Exited 0 [])\<rparr>"

definition env_soundtrack_fails :: env where
  "env_soundtrack_fails =
     env_all_ok\<lparr>run := (\<lambda>c. case c of To_Wav_Quiet i out \<Rightarrow> Exited 1 [] | _ \<Rightarrow> Exited 0 [])\<rparr>"

text \<open>The example project after a successful validation.\<close>

definition validated_example :: state where
  "validated_example =
     update_status ''processing'' 10 ''Archivos validados correctamente'' example_state"


definition env_probe_na :: env where
  "env_probe_na =
     env_all_ok\<lparr>run := (\<lambda>c. case c of
        Probe_Duration v \<Rightarrow> Exited 0 (''N/A'' @ [CHR 0x0A])
      | _ \<Rightarrow> Exited 0 [])\<rparr>"

section \<open>Status recorder: what an update writes\<close>

lemma config_update_status:
  "config (update_status st p m s) =
     (config s)\<lparr>status := Some st, progress := Some p,
                 message := (if m \<noteq> [] then Some m else message (config s))\<rparr>"
  by (simp add: update_status_def print_status_def json_dump_def open_w_def set_status_def)


lemma trace_update_status: "trace (update_status st p m s) = trace s @ [Status st p m]"
  by (simp add: update_status_def print_status_def json_dump_def open_w_def set_status_def)

lemma project_dir_update_status: "project_dir (update_status st p m s) = project_dir s"
  by (simp add: update_status_def print_status_def json_dump_def open_w_def set_status_def)






section \<open>Evaluating the model on the examples\<close>

lemmas eval_defs = process_def process_try_def bnd_def ret_def validate_files_def
  prepare_images_def mkdir_def processed_dir_def output_dir_def images_dir_def audio_dir_def
  path_join_def run_checked_def run_unchecked_def update_status_def set_status_def open_w_def
  json_dump_def print_status_def warn_def write_text_def image_progress_def prepare_audio_def
  create_video_timeline_def add_thumbnail_def add_audio_def apply_effects_def add_fade_out_def
  finish_def strip_def is_space_def Let_def pad2_def str_nat.simps digit_char_def
  example_state_def example_config_def example_images_def state_two_images_def

lemmas env_defs = env_all_ok_def env_image_missing_def env_narration_missing_def
  env_second_image_fails_def

section \<open>Rules for stages\<close>

lemma hoareI: "(\<And>s r s'. P s \<Longrightarrow> m s = (r, s') \<Longrightarrow> Q r s') \<Longrightarrow> hoare P m Q"
  by (simp add: hoare_def)

lemma hoareD: "hoare P m Q \<Longrightarrow> P s \<Longrightarrow> m s = (r, s') \<Longrightarrow> Q r s'"
  by (simp add: hoare_def)

lemma hoare_bnd:
  assumes "hoare P m Q'" "\<And>v. hoare (Q' (Inr v)) (f v) Q" "\<And>x s. Q' (Inl x) s \<Longrightarrow> Q (Inl x) s"
  shows "hoare P (bnd m f) Q"
proof (rule hoareI)
  fix s r s' assume P: "P s" and run: "bnd m f s = (r, s')"
  obtain r1 s1 where m: "m s = (r1, s1)" by (cases "m s")
  have q: "Q' r1 s1" using assms(1) P m by (rule hoareD)
  show "Q r s'"
  proof (cases r1)
    case (Inl x)
    then show ?thesis using run m q assms(3) by (auto simp: bnd_def)
  next
    case (Inr v)
    then have "f v s1 = (r, s')" using run m by (simp add: bnd_def)
    then show ?thesis using assms(2) q Inr by (auto dest: hoareD)
  qed
qed

lemma hoare_ret: "(\<And>s. P s \<Longrightarrow> Q (Inr v) s) \<Longrightarrow> hoare P (ret v) Q"
  by (simp add: hoare_def ret_def)

subsection \<open>The observations only grow\<close>

lemma trace_from_simps [simp]:
  "trace_from t s \<Longrightarrow> trace_from t (update_status st p m s)"
  "trace_from t s \<Longrightarrow> trace_from t (warn w s)"
  "trace_from t s \<Longrightarrow> trace_from t (write_text pa ls s)"
  "trace_from t s \<Longrightarrow> trace_from t (s\<lparr>trace := trace s @ evs\<rparr>)"
  by (auto simp: trace_from_def update_status_def print_status_def json_dump_def open_w_def set_status_def warn_def write_text_def)

lemma trace_from_run_checked: "hoare (trace_from t) (run_checked e c) (\<lambda>r. trace_from t)"
  by (auto simp: hoare_def run_checked_def Let_def trace_from_def split: outcome.splits if_splits)

lemma trace_from_run_checkedD: "run_checked e c s = (r, s') \<Longrightarrow> trace_from t s \<Longrightarrow> trace_from t s'"
  using trace_from_run_checked by (auto simp: hoare_def)

lemma trace_from_validate: "hoare (trace_from t) (\<lambda>s. case validate_files e s of (ok, s') \<Rightarrow> (Inr ok, s')) (\<lambda>r. trace_from t)"
  by (auto simp: hoare_def validate_files_def split: if_splits option.splits)

lemma trace_from_mkdir: "mkdir e p s = (r, s') \<Longrightarrow> trace_from t s \<Longrightarrow> trace_from t s'"
  by (auto simp: mkdir_def Let_def trace_from_def split: option.splits)

lemma trace_from_loop: "prepare_images_loop e i fs acc s = (r, s') \<Longrightarrow> trace_from t s \<Longrightarrow> trace_from t s'"
proof (induction fs arbitrary: i acc s)
  case Nil
  then show ?case by simp
next
  case (Cons f fs)
  then show ?case
    by (auto simp: Let_def split: prod.splits sum.splits if_splits dest: trace_from_run_checkedD)
qed

lemma trace_from_prepare_images: "hoare (trace_from t) (prepare_images e) (\<lambda>r. trace_from t)"
  by (auto simp: hoare_def prepare_images_def split: prod.splits sum.splits dest: trace_from_mkdir trace_from_loop)

lemma trace_from_prepare_audio: "hoare (trace_from t) (prepare_audio e) (\<lambda>r. trace_from t)"
  by (auto simp: hoare_def prepare_audio_def Let_def split: prod.splits sum.splits if_splits dest!: trace_from_run_checkedD[where t=t])

lemma trace_from_timeline: "hoare (trace_from t) (create_video_timeline e ips) (\<lambda>r. trace_from t)"
  by (auto simp: hoare_def create_video_timeline_def Let_def split: prod.splits sum.splits if_splits dest!: trace_from_run_checkedD[where t=t])

lemma trace_from_thumbnail: "hoare (trace_from t) (add_thumbnail e v) (\<lambda>r. trace_from t)"
  by (auto simp: hoare_def add_thumbnail_def Let_def split: prod.splits sum.splits if_splits option.splits dest!: trace_from_run_checkedD[where t=t])

lemma trace_from_add_audio: "hoare (trace_from t) (add_audio e v af) (\<lambda>r. trace_from t)"
  by (auto simp: hoare_def add_audio_def Let_def split: prod.splits sum.splits if_splits option.splits dest!: trace_from_run_checkedD[where t=t])

lemma trace_from_effects: "hoare (trace_from t) (apply_effects e v) (\<lambda>r. trace_from t)"
  by (auto simp: hoare_def apply_effects_def Let_def split: prod.splits sum.splits if_splits option.splits dest!: trace_from_run_checkedD[where t=t])

lemma trace_from_fade: "hoare (trace_from t) (add_fade_out e v) (\<lambda>r. trace_from t)"
  by (auto simp: hoare_def add_fade_out_def Let_def split: prod.splits sum.splits if_splits option.splits dest!: trace_from_run_checkedD[where t=t])

lemma trace_from_finish: "hoare (trace_from t) (finish e v) (\<lambda>r. trace_from t)"
  by (auto simp: hoare_def finish_def run_unchecked_def Let_def trace_from_def json_dump_def open_w_def split: prod.splits sum.splits if_splits outcome.splits)

lemma process_try_after_validation:
  "process_try e =
     bnd (\<lambda>s. case validate_files e s of (ok, s') \<Rightarrow> (Inr ok, s')) (\<lambda>ok.
       if \<not> ok then ret False else pipeline_after_validation e)"
  unfolding process_try_def pipeline_after_validation_def pipeline_after_audio_def
  by (rule refl)

lemma hoare_if: "(c \<Longrightarrow> hoare P a Q) \<Longrightarrow> (\<not> c \<Longrightarrow> hoare P b Q) \<Longrightarrow> hoare P (if c then a else b) Q"
  by simp

lemmas trace_from_stages = trace_from_validate trace_from_prepare_images trace_from_prepare_audio trace_from_timeline trace_from_thumbnail
  trace_from_add_audio trace_from_effects trace_from_fade trace_from_finish



subsection \<open>The status updates of each stage\<close>

lemma hoare_stage:
  assumes "hoare P m (stage_post fatal E F S)"
    and "\<And>v. \<not> fatal v \<Longrightarrow> hoare (S v) (f v) Q"
    and "\<And>v. fatal v \<Longrightarrow> hoare F (f v) Q"
    and "\<And>x s. E s \<Longrightarrow> Q (Inl x) s"
  shows "hoare P (bnd m f) Q"
proof (rule hoare_bnd[OF assms(1)])
  fix v show "hoare (stage_post fatal E F S (Inr v)) (f v) Q"
  proof (cases "fatal v")
    case True
    then have "stage_post fatal E F S (Inr v) = F" by (simp add: stage_post_def fun_eq_iff)
    then show ?thesis using assms(3)[OF True] by simp
  next
    case False
    then have "stage_post fatal E F S (Inr v) = S v" by (simp add: stage_post_def fun_eq_iff)
    then show ?thesis using assms(2)[OF False] by simp
  qed
next
  fix x s assume "stage_post fatal E F S (Inl x) s"
  then show "Q (Inl x) s" using assms(4) by (simp add: stage_post_def)
qed

lemma statuses_append: "statuses (xs @ ys) = statuses xs @ statuses ys"
  by (induction xs rule: statuses.induct) auto

lemma procs_mono: "procs b us \<Longrightarrow> b \<le> b' \<Longrightarrow> procs b' us"
  by (fastforce simp: procs_def)

lemma procs_snoc: "procs b us \<Longrightarrow> b \<le> p \<Longrightarrow> procs p (us @ [(''processing'', p)])"
  by (fastforce simp: procs_def sorted_append)

lemma processing_upto_mono: "processing_upto b s \<Longrightarrow> b \<le> b' \<Longrightarrow> processing_upto b' s"
  by (auto simp: processing_upto_def intro: procs_mono)

lemma processing_upto_update: "processing_upto b s \<Longrightarrow> b \<le> p \<Longrightarrow> processing_upto p (update_status ''processing'' p m s)"
  by (simp add: processing_upto_def trace_update_status statuses_append procs_snoc)

lemma failed_run_update: "processing_upto b s \<Longrightarrow> b \<le> 95 \<Longrightarrow> failed_run (update_status ''error'' 0 m s)"
  by (auto simp: processing_upto_def failed_run_def trace_update_status statuses_append intro: procs_mono)

lemma processing_upto_other [simp]:
  "processing_upto b (warn w s) = processing_upto b s"
  "processing_upto b (write_text pa ls s) = processing_upto b s"
  "processing_upto b (s\<lparr>trace := trace s @ [Run c]\<rparr>) = processing_upto b s"
  "processing_upto b (s\<lparr>trace := trace s @ [Mkdir d]\<rparr>) = processing_upto b s"
  by (simp_all add: processing_upto_def warn_def write_text_def statuses_append)

lemma processing_upto_run_checked: "run_checked e c s = (r, s') \<Longrightarrow> processing_upto b s' = processing_upto b s"
  by (auto simp: run_checked_def Let_def split: outcome.splits if_splits)

lemma cfg_run_checked: "run_checked e c s = (r, s') \<Longrightarrow> config s' = config s"
  by (auto simp: run_checked_def Let_def split: outcome.splits if_splits)

lemma path_join_nonempty: "b \<noteq> [] \<Longrightarrow> path_join a b \<noteq> []"
  by (simp add: path_join_def)

lemma processing_upto_validate:
  "hoare (processing_upto 10) (\<lambda>s. case validate_files e s of (ok, s') \<Rightarrow> (Inr ok, s'))
     (stage_post (\<lambda>ok. \<not> ok) (processing_upto 95) run_shape (\<lambda>v. processing_upto 10))"
  by (auto simp: hoare_def stage_post_def run_shape_def validate_files_def split: if_splits option.splits
      intro: processing_upto_update failed_run_update)

lemma image_progress_upper: "i < n \<Longrightarrow> image_progress i n \<le> 30"
proof -
  assume "i < n"
  then have "(i + 1) * 20 \<le> 20 * n" by simp
  then have "((i + 1) * 20) div n \<le> (20 * n) div n" by (rule div_le_mono)
  also have "\<dots> \<le> 20" by simp
  finally show ?thesis by (simp add: image_progress_def)
qed

lemma image_progress_lower: "10 + int ((i * 20) div n) \<le> image_progress i n"
proof -
  have "(i * 20) div n \<le> ((i + 1) * 20) div n" by (rule div_le_mono) simp
  then show ?thesis by (simp add: image_progress_def)
qed

lemma images_update_status: "images (config (update_status st p m s)) = images (config s)"
  by (simp add: config_update_status)

lemma processing_upto_loop:
  "prepare_images_loop e i fs acc s = (r, s') \<Longrightarrow>
   processing_upto (10 + int ((i * 20) div length (images (config s)))) s \<Longrightarrow>
   i + length fs = length (images (config s)) \<Longrightarrow>
   stage_post (\<lambda>v. v = []) (processing_upto 95) run_shape (\<lambda>v. processing_upto 30) r s'"
proof (induction fs arbitrary: i acc s)
  case Nil
  have "10 + int ((i * 20) div length (images (config s))) \<le> 30"
    using Nil.prems(3) by (cases "i = 0") (simp_all add: )
  then have "processing_upto 30 s" using Nil.prems(2) by (rule processing_upto_mono[rotated])
  then have "processing_upto 95 s" by (rule processing_upto_mono) simp
  then show ?case using Nil.prems(1) \<open>processing_upto 30 s\<close> by (auto simp: stage_post_def run_shape_def)
next
  case (Cons f fs)
  let ?n = "length (images (config s))"
  obtain r1 s1 where rc: "run_checked e (Scale_Crop (path_join (images_dir s) f)
        (path_join (processed_dir s) (''img_'' @ pad2 i @ ''.jpg''))) s = (r1, s1)"
    by (cases "run_checked e (Scale_Crop (path_join (images_dir s) f)
        (path_join (processed_dir s) (''img_'' @ pad2 i @ ''.jpg''))) s")
  have c1: "config s1 = config s" using rc by (rule cfg_run_checked)
  have p1: "processing_upto (10 + int ((i * 20) div ?n)) s1" using rc Cons.prems(2) by (simp add: processing_upto_run_checked)
  have iltn: "i < ?n" using Cons.prems(3) by simp
  have b30: "10 + int ((i * 20) div ?n) \<le> 30"
    using image_progress_lower[of i ?n] image_progress_upper[OF iltn] by linarith
  show ?case
  proof (cases r1)
    case (Inl x)
    show ?thesis
    proof (cases "is_cpe x")
      case True
      have "failed_run (update_status ''error'' 0
                  (''Error procesando imagen '' @ str_nat (i + 1) @ '': '' @ str_exn x) s1)"
        using p1 b30 by (intro failed_run_update) auto
      then show ?thesis using Cons.prems(1) rc Inl True by (auto simp: Let_def stage_post_def run_shape_def)
    next
      case False
      have "processing_upto 95 s1" using p1 b30 by (intro processing_upto_mono[OF p1]) linarith
      then show ?thesis using Cons.prems(1) rc Inl False by (auto simp: Let_def stage_post_def)
    qed
  next
    case (Inr out)
    let ?s2 = "update_status ''processing'' (image_progress i ?n)
                  (''Procesando imagen '' @ str_nat (i + 1) @ ''/30'') s1"
    have run: "prepare_images_loop e (i + 1) fs (acc @ [path_join (processed_dir s) (''img_'' @ pad2 i @ ''.jpg'')]) ?s2 = (r, s')"
      using Cons.prems(1) rc Inr c1 by (simp add: Let_def)
    have n2: "length (images (config ?s2)) = ?n" by (simp add: images_update_status c1)
    have p2: "processing_upto (image_progress i ?n) ?s2"
      using p1 image_progress_lower[of i ?n] by (rule processing_upto_update)
    have p2': "processing_upto (10 + int (((i + 1) * 20) div length (images (config ?s2)))) ?s2"
      using p2 by (simp add: images_update_status c1 image_progress_def)
    have len: "(i + 1) + length fs = length (images (config ?s2))"
      using Cons.prems(3) by (simp add: images_update_status c1)
    show ?thesis using Cons.IH[OF run p2' len] .
  qed
qed

lemma processing_upto_mkdir: "mkdir e p s = (r, s') \<Longrightarrow> processing_upto b s' = processing_upto b s \<and> config s' = config s"
  by (auto simp: mkdir_def Let_def split: option.splits)

lemma processing_upto_prepare_images:
  "hoare (processing_upto 10) (prepare_images e) (stage_post (\<lambda>v. v = []) (processing_upto 95) run_shape (\<lambda>v. processing_upto 30))"
proof (rule hoareI)
  fix s r s' assume P: "processing_upto 10 s" and run: "prepare_images e s = (r, s')"
  obtain r1 s1 where mk: "mkdir e (processed_dir s) s = (r1, s1)"
    by (cases "mkdir e (processed_dir s) s")
  have p1: "processing_upto 10 s1" and c1: "config s1 = config s" using processing_upto_mkdir[OF mk] P by simp_all
  show "stage_post (\<lambda>v. v = []) (processing_upto 95) run_shape (\<lambda>v. processing_upto 30) r s'"
  proof (cases r1)
    case (Inl x)
    then show ?thesis using run mk processing_upto_mono[OF p1, of 95]
      by (auto simp: prepare_images_def stage_post_def)
  next
    case (Inr u)
    then have "prepare_images_loop e 0 (images (config s1)) [] s1 = (r, s')"
      using run mk by (simp add: prepare_images_def)
    moreover have "processing_upto (10 + int ((0 * 20) div length (images (config s1)))) s1" using p1 by simp
    ultimately show ?thesis by (rule processing_upto_loop) simp
  qed
qed

lemma statuses_snoc [simp]:
  "statuses (evs @ [Run c]) = statuses evs"
  "statuses (evs @ [Warning w]) = statuses evs"
  "statuses (evs @ [Write_Text pa ls]) = statuses evs"
  "statuses (evs @ [Mkdir d]) = statuses evs"
  "statuses (evs @ [Status st p m]) = statuses evs @ [(st, p)]"
  by (simp_all add: statuses_append)

lemma processing_upto_unfold: "processing_upto b s \<longleftrightarrow> (\<forall>u\<in>set (statuses (trace s)). fst u = ''processing'' \<and> snd u \<le> b) \<and> sorted (map snd (statuses (trace s)))"
  by (simp add: processing_upto_def procs_def)

lemma failed_run_unfold: "failed_run s \<longleftrightarrow> (\<exists>pre. statuses (trace s) = pre @ [(''error'', 0)] \<and>
   (\<forall>u\<in>set pre. fst u = ''processing'' \<and> snd u \<le> 95) \<and> sorted (map snd pre))"
  by (simp add: failed_run_def procs_def)

lemmas stage_simps = Let_def stage_post_def run_shape_def processing_upto_unfold failed_run_unfold trace_update_status warn_def
  write_text_def sorted_append statuses_append

lemma run_checked_eq: "run_checked e c s = (run_result e c, s\<lparr>trace := trace s @ [Run c]\<rparr>)"
  by (simp add: run_checked_def run_result_def Let_def split: outcome.splits)

lemma processing_upto_prepare_audio:
  "hoare (processing_upto 30) (prepare_audio e) (stage_post (\<lambda>v. v = []) (processing_upto 95) run_shape (\<lambda>v. processing_upto 40))"
  by (rule hoareI)
     (auto simp: prepare_audio_def run_checked_eq stage_simps split: sum.splits if_splits)

lemma processing_upto_timeline:
  "hoare (processing_upto 40) (create_video_timeline e ips) (stage_post (\<lambda>v. v = []) (processing_upto 95) run_shape (\<lambda>v. processing_upto 50))"
  by (rule hoareI)
     (auto simp: create_video_timeline_def run_checked_eq stage_simps path_join_nonempty
       split: sum.splits if_splits)

lemma processing_upto_thumbnail:
  "hoare (processing_upto 50) (add_thumbnail e v) (stage_post (\<lambda>v. False) (processing_upto 95) run_shape (\<lambda>v. processing_upto 60))"
  by (rule hoareI)
     (auto simp: add_thumbnail_def run_checked_eq stage_simps
       split: sum.splits if_splits option.splits)

lemma processing_upto_add_audio:
  "hoare (processing_upto 60) (add_audio e v af) (stage_post (\<lambda>v. v = []) (processing_upto 95) run_shape (\<lambda>v. processing_upto 75))"
  by (rule hoareI)
     (auto simp: add_audio_def run_checked_eq stage_simps path_join_nonempty
       split: sum.splits if_splits option.splits)

lemma processing_upto_effects:
  "hoare (processing_upto 75) (apply_effects e v) (stage_post (\<lambda>v. False) (processing_upto 95) run_shape (\<lambda>v. processing_upto 85))"
  by (rule hoareI)
     (auto simp: apply_effects_def run_checked_eq stage_simps
       split: sum.splits if_splits option.splits)

lemma processing_upto_fade:
  "hoare (processing_upto 85) (add_fade_out e v) (stage_post (\<lambda>v. False) (processing_upto 95) run_shape (\<lambda>v. processing_upto 95))"
  by (rule hoareI)
     (auto simp: add_fade_out_def run_checked_eq stage_simps
       split: sum.splits if_splits option.splits)

lemma processing_upto_finish:
  "hoare (processing_upto 95) (finish e v) (stage_post (\<lambda>ok. \<not> ok) (processing_upto 95) run_shape (\<lambda>v. processing_upto 95))"
  by (rule hoareI)
     (auto simp: finish_def run_unchecked_def json_dump_def open_w_def stage_simps
       split: sum.splits if_splits outcome.splits)

lemma stage_post_simps [simp]:
  "stage_post fatal E F S (Inl x) s = E s"
  "stage_post fatal E F S (Inr v) s = (if fatal v then F s else S v s)"
  by (simp_all add: stage_post_def)

lemma hoare_ret_iff: "hoare P (ret v) Q \<longleftrightarrow> (\<forall>s. P s \<longrightarrow> Q (Inr v) s)"
  by (simp add: hoare_def ret_def)

lemma hoare_False [simp]: "hoare (\<lambda>s. False) m Q"
  by (simp add: hoare_def)

lemma processing_upto_process_try:
  "hoare (processing_upto 10) (process_try e) (stage_post (\<lambda>ok. \<not> ok) (processing_upto 95) run_shape (\<lambda>v. processing_upto 95))"
  unfolding process_try_def
  apply (rule hoare_stage[OF processing_upto_validate]; simp add: hoare_ret_iff)
  apply (rule hoare_stage[OF processing_upto_prepare_images]; simp add: hoare_ret_iff)
  apply (rule hoare_stage[OF processing_upto_prepare_audio]; simp add: hoare_ret_iff)
  apply (rule hoare_stage[OF processing_upto_timeline]; simp add: hoare_ret_iff)
  apply (rule hoare_stage[OF processing_upto_thumbnail]; simp add: hoare_ret_iff)
  apply (rule hoare_stage[OF processing_upto_add_audio]; simp add: hoare_ret_iff)
  apply (rule hoare_stage[OF processing_upto_effects]; simp add: hoare_ret_iff)
  apply (rule hoare_stage[OF processing_upto_fade]; simp add: hoare_ret_iff)
  apply (rule processing_upto_finish)
  done

lemma monotone_of_sorted: "sorted (map snd us) \<Longrightarrow> monotone_processing us"
  by (induction us rule: monotone_processing.induct) auto

lemma monotone_snoc_other:
  "monotone_processing us \<Longrightarrow> fst u \<noteq> ''processing'' \<Longrightarrow> monotone_processing (us @ [u])"
  by (induction us rule: monotone_processing.induct) auto

lemma procs_invariant: "procs b us \<Longrightarrow> monotone_processing us \<and> errors_at_zero us"
  by (auto simp: procs_def errors_at_zero_def list_all_iff intro: monotone_of_sorted)

lemma run_shape_invariant:
  "run_shape s \<Longrightarrow> monotone_processing (statuses (trace s)) \<and> errors_at_zero (statuses (trace s))"
proof (unfold run_shape_def, elim disjE)
  assume "failed_run s"
  then obtain pre where us: "statuses (trace s) = pre @ [(''error'', 0)]" and p: "procs 95 pre"
    by (auto simp: failed_run_def)
  have "monotone_processing (pre @ [(''error'', 0)])"
    using procs_invariant[OF p] by (intro monotone_snoc_other) simp_all
  moreover have "errors_at_zero (pre @ [(''error'', 0)])"
    using procs_invariant[OF p] by (simp add: errors_at_zero_def)
  ultimately show ?thesis by (simp add: us)
next
  assume "processing_upto 95 s"
  then show ?thesis by (simp add: processing_upto_def procs_invariant)
qed

lemma run_shape_process: "processing_upto 10 s \<Longrightarrow> run_shape (snd (process e s))"
proof -
  assume P: "processing_upto 10 s"
  obtain r s' where run: "process_try e s = (r, s')" by (cases "process_try e s")
  have q: "stage_post (\<lambda>ok. \<not> ok) (processing_upto 95) run_shape (\<lambda>v. processing_upto 95) r s'"
    using processing_upto_process_try P run by (rule hoareD)
  show ?thesis
  proof (cases r)
    case (Inl x)
    then have "processing_upto 95 s'" using q by simp
    then have "failed_run (update_status ''error'' 0 (''Error inesperado: '' @ str_exn x) s')"
      by (rule failed_run_update) simp
    then show ?thesis using run Inl by (simp add: process_def run_shape_def)
  next
    case (Inr ok)
    then have "run_shape s'" using q by (cases ok) (simp_all add: run_shape_def)
    then show ?thesis using run Inr by (simp add: process_def)
  qed
qed

section \<open>The status record along a run\<close>

text \<open>
  C1: in every run of the pipeline that starts with nothing observed yet, the sequence
  of status updates satisfies the invariant of the status record: successive updates
  that say \<open>processing\<close> never decrease the progress, and every update that says
  \<open>error\<close> sets the progress to 0.
\<close>

theorem status_updates_invariant:
  "trace s = [] \<Longrightarrow>
   monotone_processing (statuses (trace (snd (process e s)))) \<and>
   errors_at_zero (statuses (trace (snd (process e s))))"
proof -
  assume "trace s = []"
  then have "processing_upto 10 s" by (simp add: processing_upto_def procs_def)
  then have "run_shape (snd (process e s))" by (rule run_shape_process)
  then show ?thesis by (rule run_shape_invariant)
qed

theorem status_updates_invariant_witness:
  "trace example_state = [] \<and>
   statuses (trace (snd (process env_second_image_fails example_state))) =
     [(''processing'', 10), (''processing'', 10), (''error'', 0)] \<and>
   monotone_processing (statuses (trace (snd (process env_second_image_fails example_state)))) \<and>
   errors_at_zero (statuses (trace (snd (process env_second_image_fails example_state))))"
proof -
  have h: "trace example_state = []" by (simp add: example_state_def)
  have ev: "statuses (trace (snd (process env_second_image_fails example_state))) =
     [(''processing'', 10), (''processing'', 10), (''error'', 0)]"
    by (simp add: eval_defs env_defs)
  show ?thesis
    using h ev status_updates_invariant[OF h, of env_second_image_fails] by blast
qed

section \<open>Validation stage\<close>









section \<open>Audio muxing: the branch without audio tracks\<close>

lemmas no_audio_simps = Let_def stage_post_def no_audio_error_def trace_update_status warn_def
  write_text_def no_audio_message_def

lemma no_audio_validate:
  "hoare no_audio_error (\<lambda>s. case validate_files e s of (ok, s') \<Rightarrow> (Inr ok, s'))
     (\<lambda>r. no_audio_error)"
  by (rule hoareI) (auto simp: validate_files_def no_audio_simps split: if_splits option.splits)

lemma no_audio_update_status:
  "no_audio_error (update_status st p m s) \<longleftrightarrow>
     no_audio_error s \<and> \<not> (st = ''error'' \<and> p = 0 \<and> m = no_audio_message)"
  by (auto simp: no_audio_error_def trace_update_status)

lemma no_audio_run_checked: "run_checked e c s = (r, s') \<Longrightarrow> no_audio_error s' = no_audio_error s"
  by (auto simp: run_checked_eq no_audio_error_def)

lemma no_audio_loop:
  "prepare_images_loop e i fs acc s = (r, s') \<Longrightarrow> no_audio_error s \<Longrightarrow> no_audio_error s'"
proof (induction fs arbitrary: i acc s)
  case Nil
  then show ?case by simp
next
  case (Cons f fs)
  obtain r1 s1 where rc: "run_checked e (Scale_Crop (path_join (images_dir s) f)
        (path_join (processed_dir s) (''img_'' @ pad2 i @ ''.jpg''))) s = (r1, s1)"
    by (cases "run_checked e (Scale_Crop (path_join (images_dir s) f)
        (path_join (processed_dir s) (''img_'' @ pad2 i @ ''.jpg''))) s")
  have n1: "no_audio_error s1" using rc Cons.prems(2) by (simp add: no_audio_run_checked)
  show ?case
  proof (cases r1)
    case (Inl x)
    then show ?thesis using Cons.prems(1) rc n1
      by (auto simp: Let_def no_audio_update_status no_audio_message_def split: if_splits)
  next
    case (Inr out)
    let ?s2 = "update_status ''processing'' (image_progress i (length (images (config s1))))
                  (''Procesando imagen '' @ str_nat (i + 1) @ ''/30'') s1"
    have run: "prepare_images_loop e (i + 1) fs
        (acc @ [path_join (processed_dir s) (''img_'' @ pad2 i @ ''.jpg'')]) ?s2 = (r, s')"
      using Cons.prems(1) rc Inr by (simp add: Let_def)
    have "no_audio_error ?s2" using n1 by (simp add: no_audio_update_status)
    with run show ?thesis by (rule Cons.IH)
  qed
qed

lemma no_audio_prepare_images: "hoare no_audio_error (prepare_images e) (\<lambda>r. no_audio_error)"
proof (rule hoareI)
  fix s r s' assume P: "no_audio_error s" and run: "prepare_images e s = (r, s')"
  have m: "no_audio_error (s\<lparr>trace := trace s @ [Mkdir (processed_dir s)]\<rparr>)"
    using P by (simp add: no_audio_error_def)
  show "no_audio_error s'"
  proof (cases "mkdir_error e (processed_dir s)")
    case None
    then have "prepare_images_loop e 0 (images (config s)) []
        (s\<lparr>trace := trace s @ [Mkdir (processed_dir s)]\<rparr>) = (r, s')"
      using run by (simp add: prepare_images_def mkdir_def)
    then show ?thesis using m by (rule no_audio_loop)
  next
    case (Some t)
    then show ?thesis using run m by (auto simp: prepare_images_def mkdir_def)
  qed
qed

lemma no_audio_prepare_audio:
  "hoare no_audio_error (prepare_audio e)
     (stage_post (\<lambda>v. v = []) no_audio_error no_audio_error
        (\<lambda>v s. no_audio_error s \<and> map_of v ''narration'' \<noteq> None))"
  by (rule hoareI)
     (auto simp: prepare_audio_def run_checked_eq no_audio_simps split: sum.splits if_splits)

lemma no_audio_timeline: "hoare no_audio_error (create_video_timeline e ips) (\<lambda>r. no_audio_error)"
  by (rule hoareI)
     (auto simp: create_video_timeline_def run_checked_eq no_audio_simps split: sum.splits if_splits)

lemma no_audio_thumbnail: "hoare no_audio_error (add_thumbnail e v) (\<lambda>r. no_audio_error)"
  by (rule hoareI)
     (auto simp: add_thumbnail_def run_checked_eq no_audio_simps
       split: sum.splits if_splits option.splits)

lemma no_audio_add_audio:
  "map_of af ''narration'' \<noteq> None \<Longrightarrow>
   hoare no_audio_error (add_audio e v af) (\<lambda>r. no_audio_error)"
  by (rule hoareI)
     (auto simp: add_audio_def run_checked_eq no_audio_simps
       split: sum.splits if_splits option.splits)

lemma no_audio_effects: "hoare no_audio_error (apply_effects e v) (\<lambda>r. no_audio_error)"
  by (rule hoareI)
     (auto simp: apply_effects_def run_checked_eq no_audio_simps
       split: sum.splits if_splits option.splits)

lemma no_audio_fade: "hoare no_audio_error (add_fade_out e v) (\<lambda>r. no_audio_error)"
  by (rule hoareI)
     (auto simp: add_fade_out_def run_checked_eq no_audio_simps
       split: sum.splits if_splits option.splits)

lemma no_audio_finish: "hoare no_audio_error (finish e v) (\<lambda>r. no_audio_error)"
  by (rule hoareI)
     (auto simp: finish_def run_unchecked_def json_dump_def open_w_def no_audio_simps
       split: outcome.splits)

lemmas no_audio_stages = no_audio_validate no_audio_prepare_images no_audio_timeline no_audio_thumbnail no_audio_effects no_audio_fade
  no_audio_finish

lemma no_audio_after_audio:
  "map_of af ''narration'' \<noteq> None \<Longrightarrow>
   hoare no_audio_error (pipeline_after_audio e ips af) (\<lambda>r. no_audio_error)"
  unfolding pipeline_after_audio_def
  by ((rule hoare_bnd hoare_if hoare_ret no_audio_stages no_audio_add_audio | assumption)+)

lemma hoare_assume: "(C \<Longrightarrow> hoare P m Q) \<Longrightarrow> hoare (\<lambda>s. P s \<and> C) m Q"
  by (auto simp: hoare_def)

lemma no_audio_audio_gate:
  "hoare (\<lambda>s. no_audio_error s \<and> map_of af ''narration'' \<noteq> None)
     (if af = [] then ret False else pipeline_after_audio e ips af) (\<lambda>r. no_audio_error)"
  by (rule hoare_assume, rule hoare_if, rule hoare_ret, assumption, erule no_audio_after_audio)

lemma no_audio_after_validation:
  "hoare no_audio_error (pipeline_after_validation e) (\<lambda>r. no_audio_error)"
  unfolding pipeline_after_validation_def
  apply (rule hoare_bnd[OF no_audio_prepare_images])
   apply (rule hoare_if)
    apply (rule hoare_ret, assumption)
   apply (rule hoare_stage[OF no_audio_prepare_audio])
      apply (rule no_audio_audio_gate)
     apply (simp add: hoare_ret_iff)
    apply assumption+
  done

lemma no_audio_process_try: "hoare no_audio_error (process_try e) (\<lambda>r. no_audio_error)"
  unfolding process_try_after_validation
  by ((rule hoare_bnd hoare_if hoare_ret no_audio_stages no_audio_after_validation | assumption)+)

lemma no_audio_process: "no_audio_error s \<Longrightarrow> no_audio_error (snd (process e s))"
proof -
  assume P: "no_audio_error s"
  obtain r s' where run: "process_try e s = (r, s')" by (cases "process_try e s")
  have "no_audio_error s'" using no_audio_process_try P run by (rule hoareD)
  then show ?thesis using run by (cases r) (auto simp: process_def no_audio_simps)
qed

lemma add_audio_no_tracks:
  "map_of af ''narration'' = None \<Longrightarrow> map_of af ''soundtrack'' = None \<Longrightarrow>
   add_audio e v af s = (Inr [], update_status ''error'' 0 no_audio_message s)"
  by (simp add: add_audio_def)

lemma add_audio_some_track:
  "map_of af ''narration'' \<noteq> None \<or> map_of af ''soundtrack'' \<noteq> None \<Longrightarrow>
   trace (snd (add_audio e v af s)) \<noteq> trace s @ [Status ''error'' 0 no_audio_message]"
  by (auto simp: add_audio_def run_checked_eq trace_update_status Let_def
      split: sum.splits option.splits)

lemma prepare_audio_has_narration:
  "prepare_audio e s = (Inr af, s') \<Longrightarrow> af \<noteq> [] \<Longrightarrow> map_of af ''narration'' \<noteq> None"
  by (auto simp: prepare_audio_def run_checked_eq Let_def split: sum.splits if_splits)

text \<open>
  C9: the branch of the audio muxing stage that records \<open>No audio tracks available\<close>
  is taken exactly when the dictionary holds neither track; a dictionary that the audio
  normalization stage returns and the coordinator accepts (it is not empty) holds the
  narration; and no run of the coordinator records that error.
\<close>

theorem no_audio_branch_unreachable:
  "(add_audio e v af s = (Inr [], update_status ''error'' 0 no_audio_message s) \<longleftrightarrow>
      map_of af ''narration'' = None \<and> map_of af ''soundtrack'' = None) \<and>
   (prepare_audio e s = (Inr af', s') \<and> af' \<noteq> [] \<longrightarrow> map_of af' ''narration'' \<noteq> None) \<and>
   (Status ''error'' 0 no_audio_message \<notin> set (trace s) \<longrightarrow>
      Status ''error'' 0 no_audio_message \<notin> set (trace (snd (process e s))))"
proof (intro conjI impI iffI)
  assume eq: "add_audio e v af s = (Inr [], update_status ''error'' 0 no_audio_message s)"
  then have "trace (snd (add_audio e v af s)) = trace s @ [Status ''error'' 0 no_audio_message]"
    by (simp add: trace_update_status)
  then have n: "\<not> (map_of af ''narration'' \<noteq> None \<or> map_of af ''soundtrack'' \<noteq> None)"
    using add_audio_some_track by blast
  show "map_of af ''narration'' = None" using n by blast
  show "map_of af ''soundtrack'' = None" using n by blast
next
  assume "map_of af ''narration'' = None \<and> map_of af ''soundtrack'' = None"
  then show "add_audio e v af s = (Inr [], update_status ''error'' 0 no_audio_message s)"
    by (simp add: add_audio_no_tracks)
next
  assume "prepare_audio e s = (Inr af', s') \<and> af' \<noteq> []"
  then show "map_of af' ''narration'' \<noteq> None" using prepare_audio_has_narration by blast
next
  assume "Status ''error'' 0 no_audio_message \<notin> set (trace s)"
  then have "no_audio_error (snd (process e s))" by (intro no_audio_process) (simp add: no_audio_error_def)
  then show "Status ''error'' 0 no_audio_message \<notin> set (trace (snd (process e s)))"
    by (simp add: no_audio_error_def)
qed

theorem no_audio_branch_unreachable_witness:
  "fst (prepare_audio env_all_ok example_state) =
     Inr [(''narration'', ''proj/output/narration.wav''),
          (''soundtrack'', ''proj/output/soundtrack.wav'')] \<and>
   map_of [(''narration'', ''proj/output/narration.wav''),
           (''soundtrack'', ''proj/output/soundtrack.wav'')] ''narration'' \<noteq> None \<and>
   Status ''error'' 0 no_audio_message \<notin> set (trace example_state) \<and>
   Status ''error'' 0 no_audio_message \<notin> set (trace (snd (process env_all_ok example_state)))"
proof -
  let ?af = "[(''narration'', ''proj/output/narration.wav''),
          (''soundtrack'', ''proj/output/soundtrack.wav'')]"
  have a: "fst (prepare_audio env_all_ok example_state) = Inr ?af"
    by (simp add: eval_defs env_defs)
  then have b: "prepare_audio env_all_ok example_state =
      (Inr ?af, snd (prepare_audio env_all_ok example_state))"
    by (metis prod.collapse)
  have c: "Status ''error'' 0 no_audio_message \<notin> set (trace example_state)"
    by (simp add: example_state_def)
  note t = no_audio_branch_unreachable[of env_all_ok "[]" "[]" example_state ?af
      "snd (prepare_audio env_all_ok example_state)"]
  show ?thesis using a b c t by blast
qed

section \<open>Image normalization: the outputs\<close>

lemma pad2_two_digits: "i < 100 \<Longrightarrow> pad2 i = [digit_char (i div 10), digit_char (i mod 10)]"
proof (cases "i < 10")
  case True
  then show ?thesis by (simp add: pad2_def str_nat.simps[of i] digit_char_def)
next
  case False
  assume "i < 100"
  then have "i div 10 < 10" by simp
  then show ?thesis using False
    by (simp add: pad2_def str_nat.simps[of i] str_nat.simps[of "i div 10"])
qed

lemma invocations_append: "invocations (xs @ ys) = invocations xs @ invocations ys"
  by (induction xs rule: invocations.induct) auto

lemma dirs_update_status [simp]:
  "images_dir (update_status st p m s) = images_dir s"
  "processed_dir (update_status st p m s) = processed_dir s"
  by (simp_all add: images_dir_def processed_dir_def output_dir_def project_dir_update_status)

lemma dirs_trace [simp]:
  "images_dir (s\<lparr>trace := t\<rparr>) = images_dir s"
  "processed_dir (s\<lparr>trace := t\<rparr>) = processed_dir s"
  by (simp_all add: images_dir_def processed_dir_def output_dir_def)

lemma upt_shift: "map (\<lambda>k. f (i + k)) [0..<Suc n] = f i # map (\<lambda>k. f (Suc i + k)) [0..<n]"
  by (simp add: map_upt_Suc del: upt_Suc)

lemma loop_outputs:
  "prepare_images_loop e i fs acc s = (Inr ps, s') \<Longrightarrow> ps \<noteq> [] \<Longrightarrow>
   ps = acc @ map (\<lambda>k. path_join (processed_dir s) (''img_'' @ pad2 (i + k) @ ''.jpg''))
                [0..<length fs] \<and>
   (\<exists>evs. trace s' = trace s @ evs \<and>
      invocations evs =
        map (\<lambda>k. Scale_Crop (path_join (images_dir s) (fs ! k))
                   (path_join (processed_dir s) (''img_'' @ pad2 (i + k) @ ''.jpg'')))
          [0..<length fs])"
proof (induction fs arbitrary: i acc s)
  case Nil
  then show ?case by simp
next
  case (Cons f fs)
  let ?out = "\<lambda>j. path_join (processed_dir s) (''img_'' @ pad2 j @ ''.jpg'')"
  let ?c = "Scale_Crop (path_join (images_dir s) f) (?out i)"
  let ?s1 = "s\<lparr>trace := trace s @ [Run ?c]\<rparr>"
  let ?s2 = "update_status ''processing'' (image_progress i (length (images (config ?s1))))
                  (''Procesando imagen '' @ str_nat (i + 1) @ ''/30'') ?s1"
  show ?case
  proof (cases "run_result e ?c")
    case (Inl x)
    then show ?thesis using Cons.prems by (auto simp: run_checked_eq Let_def split: if_splits)
  next
    case (Inr out)
    then have run: "prepare_images_loop e (Suc i) fs (acc @ [?out i]) ?s2 = (Inr ps, s')"
      using Cons.prems(1) by (simp add: run_checked_eq Let_def)
    from Cons.IH[OF run Cons.prems(2)]
    obtain evs where ps: "ps = (acc @ [?out i]) @ map (\<lambda>k. ?out (Suc i + k)) [0..<length fs]"
      and tr: "trace s' = trace ?s2 @ evs"
      and inv: "invocations evs =
        map (\<lambda>k. Scale_Crop (path_join (images_dir s) (fs ! k)) (?out (Suc i + k))) [0..<length fs]"
      by auto
    have sh: "map (\<lambda>k. ?out (i + k)) [0..<length (f # fs)] =
        ?out i # map (\<lambda>k. ?out (Suc i + k)) [0..<length fs]"
      using upt_shift[of ?out i "length fs"] by simp
    have ps': "ps = acc @ map (\<lambda>k. ?out (i + k)) [0..<length (f # fs)]"
      unfolding sh using ps by simp
    have tr': "trace s' = trace s @ (Run ?c # Status ''processing''
                  (image_progress i (length (images (config ?s1))))
                  (''Procesando imagen '' @ str_nat (i + 1) @ ''/30'') # evs)"
      using tr by (simp add: trace_update_status)
    have "invocations (Run ?c # Status ''processing''
                  (image_progress i (length (images (config ?s1))))
                  (''Procesando imagen '' @ str_nat (i + 1) @ ''/30'') # evs) =
          map (\<lambda>k. Scale_Crop (path_join (images_dir s) ((f # fs) ! k)) (?out (i + k)))
            [0..<length (f # fs)]"
    proof -
      let ?g = "\<lambda>j. Scale_Crop (path_join (images_dir s) ((f # fs) ! (j - i))) (?out j)"
      have "map (\<lambda>k. ?g (i + k)) [0..<length (f # fs)] =
          ?g i # map (\<lambda>k. ?g (Suc i + k)) [0..<length fs]"
        using upt_shift[of ?g i "length fs"] by simp
      then show ?thesis using inv by simp
    qed
    with ps' tr' show ?thesis by blast
  qed
qed

text \<open>
  C8: when the image normalization stage succeeds (it returns a list that is not
  empty), the list has as many paths as there are input images; the path at index \<open>i\<close>
  is \<open>img_\<close> followed by the index in at least two digits, padded with a zero, and
  \<open>.jpg\<close>, in the directory of processed images; and the stage has run one conversion
  for each input image, in input order, into that path. Nothing in the stage looks at
  the dimensions of an image.
\<close>

theorem prepare_images_outputs:
  "prepare_images e s = (Inr image_paths, s') \<Longrightarrow> image_paths \<noteq> [] \<Longrightarrow>
   length image_paths = length (images (config s)) \<and>
   (\<forall>i<length image_paths.
      image_paths ! i = path_join (processed_dir s) (''img_'' @ pad2 i @ ''.jpg'') \<and>
      (i < 100 \<longrightarrow> pad2 i = [digit_char (i div 10), digit_char (i mod 10)])) \<and>
   (\<exists>evs. trace s' = trace s @ Mkdir (processed_dir s) # evs \<and>
      invocations evs =
        map (\<lambda>i. Scale_Crop (path_join (images_dir s) (images (config s) ! i))
                   (path_join (processed_dir s) (''img_'' @ pad2 i @ ''.jpg'')))
          [0..<length (images (config s))])"
proof -
  assume run: "prepare_images e s = (Inr image_paths, s')" and ne: "image_paths \<noteq> []"
  let ?s1 = "s\<lparr>trace := trace s @ [Mkdir (processed_dir s)]\<rparr>"
  have "mkdir_error e (processed_dir s) = None"
    using run by (cases "mkdir_error e (processed_dir s)") (simp_all add: prepare_images_def mkdir_def)
  then have loop: "prepare_images_loop e 0 (images (config s)) [] ?s1 = (Inr image_paths, s')"
    using run by (simp add: prepare_images_def mkdir_def)
  from loop_outputs[OF loop ne]
  obtain evs where ps: "image_paths =
        map (\<lambda>k. path_join (processed_dir s) (''img_'' @ pad2 k @ ''.jpg''))
          [0..<length (images (config s))]"
    and tr: "trace s' = trace ?s1 @ evs"
    and inv: "invocations evs =
        map (\<lambda>k. Scale_Crop (path_join (images_dir s) (images (config s) ! k))
                   (path_join (processed_dir s) (''img_'' @ pad2 k @ ''.jpg'')))
          [0..<length (images (config s))]"
    by auto
  have len: "length image_paths = length (images (config s))" by (simp add: ps)
  have nth: "\<forall>i<length image_paths.
      image_paths ! i = path_join (processed_dir s) (''img_'' @ pad2 i @ ''.jpg'') \<and>
      (i < 100 \<longrightarrow> pad2 i = [digit_char (i div 10), digit_char (i mod 10)])"
    using pad2_two_digits by (simp add: ps)
  have "trace s' = trace s @ Mkdir (processed_dir s) # evs" using tr by simp
  with len nth inv show ?thesis by blast
qed

theorem prepare_images_outputs_witness:
  "fst (prepare_images env_all_ok example_state) = Inr example_outputs \<and>
   example_outputs \<noteq> [] \<and>
   length example_outputs = length (images (config example_state)) \<and>
   example_outputs ! 0 = path_join (processed_dir example_state) (''img_'' @ pad2 0 @ ''.jpg'') \<and>
   example_outputs ! 29 = path_join (processed_dir example_state) (''img_'' @ pad2 29 @ ''.jpg'') \<and>
   pad2 29 = ''29''"
proof -
  have a: "fst (prepare_images env_all_ok example_state) = Inr example_outputs"
    by (simp add: eval_defs env_defs example_outputs_def)
  then have b: "prepare_images env_all_ok example_state =
      (Inr example_outputs, snd (prepare_images env_all_ok example_state))"
    by (metis prod.collapse)
  have c: "example_outputs \<noteq> []" by (simp add: example_outputs_def)
  have l: "0 < length example_outputs \<and> 29 < length example_outputs"
    by (simp add: example_outputs_def)
  have d: "pad2 29 = ''29''" by (simp add: pad2_def str_nat.simps digit_char_def)
  show ?thesis using a c d l prepare_images_outputs[OF b c] by blast
qed

section \<open>Audio normalization: what is fatal\<close>

lemma run_result_ok: "run e c = Exited 0 out \<Longrightarrow> run_result e c = Inr out"
  by (simp add: run_result_def)

lemma run_result_failed:
  "run e c = Exited rc out \<Longrightarrow> rc \<noteq> 0 \<Longrightarrow>
   run_result e c = Inl (CalledProcessError (cpe_text e c rc))"
  by (simp add: run_result_def)

lemma aux_update_status [simp]:
  "output_dir (update_status st p m s) = output_dir s"
  "audio_dir (update_status st p m s) = audio_dir s"
  "selectedSoundtrack (config (update_status st p m s)) = selectedSoundtrack (config s)"
  by (simp_all add: output_dir_def audio_dir_def project_dir_update_status config_update_status)

lemma aux_trace [simp]:
  "output_dir (s\<lparr>trace := t\<rparr>) = output_dir s"
  "audio_dir (s\<lparr>trace := t\<rparr>) = audio_dir s"
  by (simp_all add: output_dir_def audio_dir_def)

lemma prepare_audio_narration_fails:
  "run e (narration_cmd s) = Exited rc out \<Longrightarrow> rc \<noteq> 0 \<Longrightarrow>
   prepare_audio e s =
     (Inr [], update_status ''error'' 0
        (''Error procesando audio: '' @ cpe_text e (narration_cmd s) rc)
        (s\<lparr>trace := trace s @ [Run (narration_cmd s)]\<rparr>))"
  by (simp add: prepare_audio_def run_checked_eq run_result_failed narration_cmd_def Let_def)

lemma prepare_audio_soundtrack_missing:
  "run e (narration_cmd s) = Exited 0 out \<Longrightarrow> truthy (selectedSoundtrack (config s)) \<Longrightarrow>
   \<not> exists_path e (soundtrack_path s) \<Longrightarrow>
   prepare_audio e s =
     (Inr [(''narration'', path_join (output_dir s) ''narration.wav'')], after_narration s)"
  by (simp add: prepare_audio_def run_checked_eq run_result_ok narration_cmd_def
      soundtrack_path_def after_narration_def Let_def)

lemma prepare_audio_soundtrack_fails:
  "run e (narration_cmd s) = Exited 0 out \<Longrightarrow> truthy (selectedSoundtrack (config s)) \<Longrightarrow>
   exists_path e (soundtrack_path s) \<Longrightarrow>
   run e (soundtrack_cmd s) = Exited rc out' \<Longrightarrow> rc \<noteq> 0 \<Longrightarrow>
   prepare_audio e s =
     (Inr [(''narration'', path_join (output_dir s) ''narration.wav'')],
      warn (''Warning: Error processing soundtrack: '' @ cpe_text e (soundtrack_cmd s) rc)
        ((after_narration s)\<lparr>trace := trace (after_narration s) @ [Run (soundtrack_cmd s)]\<rparr>))"
  by (simp add: prepare_audio_def run_checked_eq run_result_ok run_result_failed narration_cmd_def
      soundtrack_path_def soundtrack_cmd_def after_narration_def Let_def)

lemma same_project_refl [simp]: "same_project s s"
  by (simp add: same_project_def)

lemma same_project_trans: "same_project s s1 \<Longrightarrow> same_project s1 s2 \<Longrightarrow> same_project s s2"
  by (simp add: same_project_def)

lemma same_project_update_status [simp]: "same_project s (update_status st p m s)"
  by (simp add: same_project_def project_dir_update_status config_update_status)

lemma same_project_trace [simp]: "same_project s (s\<lparr>trace := t\<rparr>)"
  by (simp add: same_project_def)

lemma same_project_loop:
  "prepare_images_loop e i fs acc s = (r, s') \<Longrightarrow> same_project s s'"
proof (induction fs arbitrary: i acc s)
  case Nil
  then show ?case by simp
next
  case (Cons f fs)
  let ?c = "Scale_Crop (path_join (images_dir s) f)
              (path_join (processed_dir s) (''img_'' @ pad2 i @ ''.jpg''))"
  let ?s1 = "s\<lparr>trace := trace s @ [Run ?c]\<rparr>"
  show ?case
  proof (cases "run_result e ?c")
    case (Inl x)
    have "same_project s (update_status ''error'' 0
        (''Error procesando imagen '' @ str_nat (i + 1) @ '': '' @ str_exn x) ?s1)"
      by (rule same_project_trans[of s ?s1]) simp_all
    then show ?thesis using Cons.prems Inl
      by (auto simp: run_checked_eq Let_def split: if_splits)
  next
    case (Inr out)
    let ?s2 = "update_status ''processing'' (image_progress i (length (images (config ?s1))))
                  (''Procesando imagen '' @ str_nat (i + 1) @ ''/30'') ?s1"
    have run: "prepare_images_loop e (Suc i) fs
        (acc @ [path_join (processed_dir s) (''img_'' @ pad2 i @ ''.jpg'')]) ?s2 = (r, s')"
      using Cons.prems Inr by (simp add: run_checked_eq Let_def)
    have "same_project s ?s2" by (rule same_project_trans[of s ?s1]) simp_all
    then show ?thesis using Cons.IH[OF run] by (rule same_project_trans)
  qed
qed

lemma same_project_prepare_images: "prepare_images e s = (r, s') \<Longrightarrow> same_project s s'"
proof -
  assume run: "prepare_images e s = (r, s')"
  let ?s1 = "s\<lparr>trace := trace s @ [Mkdir (processed_dir s)]\<rparr>"
  show ?thesis
  proof (cases "mkdir_error e (processed_dir s)")
    case None
    then have "prepare_images_loop e 0 (images (config s)) [] ?s1 = (r, s')"
      using run by (simp add: prepare_images_def mkdir_def)
    then have "same_project ?s1 s'" by (rule same_project_loop)
    then show ?thesis by (simp add: same_project_def)
  next
    case (Some t)
    then show ?thesis using run by (auto simp: prepare_images_def mkdir_def same_project_def)
  qed
qed

lemma loop_all_ok:
  assumes ok: "\<And>i out. \<exists>t. run e (Scale_Crop i out) = Exited 0 t"
  shows "fst (prepare_images_loop e i fs acc s) =
     Inr (acc @ map (\<lambda>k. path_join (processed_dir s) (''img_'' @ pad2 (i + k) @ ''.jpg''))
                  [0..<length fs])"
proof (induction fs arbitrary: i acc s)
  case Nil
  then show ?case by simp
next
  case (Cons f fs)
  let ?out = "\<lambda>j. path_join (processed_dir s) (''img_'' @ pad2 j @ ''.jpg'')"
  let ?c = "Scale_Crop (path_join (images_dir s) f) (?out i)"
  let ?s1 = "s\<lparr>trace := trace s @ [Run ?c]\<rparr>"
  let ?s2 = "update_status ''processing'' (image_progress i (length (images (config ?s1))))
                  (''Procesando imagen '' @ str_nat (i + 1) @ ''/30'') ?s1"
  obtain t where "run e ?c = Exited 0 t" using ok by blast
  then have rr: "run_result e ?c = Inr t" by (rule run_result_ok)
  have step: "prepare_images_loop e i (f # fs) acc s =
      prepare_images_loop e (Suc i) fs (acc @ [?out i]) ?s2"
    using rr by (simp add: run_checked_eq Let_def)
  have sh: "map (\<lambda>k. ?out (i + k)) [0..<length (f # fs)] =
        ?out i # map (\<lambda>k. ?out (Suc i + k)) [0..<length fs]"
    using upt_shift[of ?out i "length fs"] by simp
  show ?case unfolding step sh using Cons.IH[of "Suc i" "acc @ [?out i]" ?s2] by simp
qed

lemma prepare_images_all_ok:
  assumes "\<And>i out. \<exists>t. run e (Scale_Crop i out) = Exited 0 t"
    and "mkdir_error e (processed_dir s) = None"
  shows "fst (prepare_images e s) =
     Inr (map (\<lambda>k. path_join (processed_dir s) (''img_'' @ pad2 k @ ''.jpg''))
            [0..<length (images (config s))])"
  using loop_all_ok[OF assms(1), of 0 "images (config s)" "[]"
      "s\<lparr>trace := trace s @ [Mkdir (processed_dir s)]\<rparr>"] assms(2)
  by (simp add: prepare_images_def mkdir_def)

lemma process_stops_at_audio:
  "validate_files e s0 = (True, s1) \<Longrightarrow> prepare_images e s1 = (Inr ips, s) \<Longrightarrow> ips \<noteq> [] \<Longrightarrow>
   prepare_audio e s = (Inr [], s') \<Longrightarrow> process e s0 = (False, s')"
  by (simp add: process_def process_try_def bnd_def ret_def)

lemma process_try_goes_on:
  "validate_files e s0 = (True, s1) \<Longrightarrow> prepare_images e s1 = (Inr ips, s) \<Longrightarrow> ips \<noteq> [] \<Longrightarrow>
   prepare_audio e s = (Inr af, s') \<Longrightarrow> af \<noteq> [] \<Longrightarrow>
   process_try e s0 = pipeline_after_audio e ips af s'"
  by (simp add: process_try_after_validation pipeline_after_validation_def bnd_def ret_def)

lemma timeline_first_event:
  "ips \<noteq> [] \<Longrightarrow>
   hoare (\<lambda>s. s = s3) (create_video_timeline e ips)
     (\<lambda>r. trace_from (trace s3 @
        [Write_Text (path_join (output_dir s3) ''images_list.txt'') (images_list_text ips)]))"
  by (rule hoareI)
     (auto simp: create_video_timeline_def run_checked_eq trace_from_def trace_update_status
       write_text_def images_list_text_def Let_def split: sum.splits if_splits)

lemma after_audio_first_event:
  assumes "ips \<noteq> []"
  shows "hoare (\<lambda>s. s = s3) (pipeline_after_audio e ips af)
     (\<lambda>r. trace_from (trace s3 @
        [Write_Text (path_join (output_dir s3) ''images_list.txt'') (images_list_text ips)]))"
  unfolding pipeline_after_audio_def
  apply (rule hoare_bnd[OF timeline_first_event[OF assms]])
   apply ((rule hoare_bnd hoare_if hoare_ret trace_from_stages | assumption)+)
  done

lemma process_goes_on:
  assumes "validate_files e s0 = (True, s1)" "prepare_images e s1 = (Inr ips, s)" "ips \<noteq> []"
    "prepare_audio e s = (Inr af, s')" "af \<noteq> []"
  shows "\<exists>evs. trace (snd (process e s0)) =
     trace s' @ Write_Text (path_join (output_dir s') ''images_list.txt'') (images_list_text ips)
       # evs"
proof -
  let ?t = "trace s' @
        [Write_Text (path_join (output_dir s') ''images_list.txt'') (images_list_text ips)]"
  obtain r s4 where run: "pipeline_after_audio e ips af s' = (r, s4)"
    by (cases "pipeline_after_audio e ips af s'")
  have "trace_from ?t s4"
    using after_audio_first_event[OF assms(3), of s' e af] run by (auto dest: hoareD)
  moreover have "process_try e s0 = (r, s4)"
    using process_try_goes_on[OF assms] run by simp
  ultimately have "trace_from ?t (snd (process e s0))"
    by (cases r) (simp_all add: process_def)
  then show ?thesis by (auto simp: trace_from_def)
qed

lemma warnings_append: "warnings (xs @ ys) = warnings xs @ warnings ys"
  by (induction xs rule: warnings.induct) auto

text \<open>
  C6, as the code has it, for a run that has reached the audio stage. A failed
  conversion of the narration records \<open>error\<close> with progress 0, and the coordinator
  returns failure at once. With a soundtrack selected: when its asset is missing, the
  stage returns the narration alone and prints no warning, and the coordinator goes on
  to the timeline stage; when its conversion fails, the stage returns the narration
  alone, prints one warning, records no further status, and the coordinator goes on to
  the timeline stage.
\<close>

theorem audio_stage_failures:
  assumes "validate_files e s0 = (True, s1)"
    and "prepare_images e s1 = (Inr image_paths, s)"
    and "image_paths \<noteq> []"
  shows
   "(run e (narration_cmd s) = Exited rc out \<and> rc \<noteq> 0 \<longrightarrow>
       prepare_audio e s =
         (Inr [], update_status ''error'' 0
            (''Error procesando audio: '' @ cpe_text e (narration_cmd s) rc)
            (s\<lparr>trace := trace s @ [Run (narration_cmd s)]\<rparr>)) \<and>
       process e s0 =
         (False, update_status ''error'' 0
            (''Error procesando audio: '' @ cpe_text e (narration_cmd s) rc)
            (s\<lparr>trace := trace s @ [Run (narration_cmd s)]\<rparr>))) \<and>
    (run e (narration_cmd s) = Exited 0 out \<and> truthy (selectedSoundtrack (config s)) \<and>
     \<not> exists_path e (soundtrack_path s) \<longrightarrow>
       prepare_audio e s =
         (Inr [(''narration'', path_join (output_dir s) ''narration.wav'')], after_narration s) \<and>
       warnings (trace (after_narration s)) = warnings (trace s) \<and>
       (\<exists>evs. trace (snd (process e s0)) =
          trace (after_narration s) @
          Write_Text (path_join (output_dir s) ''images_list.txt'')
            (images_list_text image_paths) # evs)) \<and>
    (run e (narration_cmd s) = Exited 0 out \<and> truthy (selectedSoundtrack (config s)) \<and>
     exists_path e (soundtrack_path s) \<and>
     run e (soundtrack_cmd s) = Exited rc out' \<and> rc \<noteq> 0 \<longrightarrow>
       (\<exists>s'. prepare_audio e s =
           (Inr [(''narration'', path_join (output_dir s) ''narration.wav'')], s') \<and>
         warnings (trace s') = warnings (trace s) @
           [''Warning: Error processing soundtrack: '' @ cpe_text e (soundtrack_cmd s) rc] \<and>
         statuses (trace s') = statuses (trace s) @ [(''processing'', 35)] \<and>
         (\<exists>evs. trace (snd (process e s0)) =
            trace s' @
            Write_Text (path_join (output_dir s) ''images_list.txt'')
              (images_list_text image_paths) # evs)))"
proof (intro conjI impI)
  assume a: "run e (narration_cmd s) = Exited rc out \<and> rc \<noteq> 0"
  then show pa: "prepare_audio e s =
         (Inr [], update_status ''error'' 0
            (''Error procesando audio: '' @ cpe_text e (narration_cmd s) rc)
            (s\<lparr>trace := trace s @ [Run (narration_cmd s)]\<rparr>))"
    by (simp add: prepare_audio_narration_fails)
  show "process e s0 =
         (False, update_status ''error'' 0
            (''Error procesando audio: '' @ cpe_text e (narration_cmd s) rc)
            (s\<lparr>trace := trace s @ [Run (narration_cmd s)]\<rparr>))"
    using assms pa by (rule process_stops_at_audio)
next
  assume a: "run e (narration_cmd s) = Exited 0 out \<and> truthy (selectedSoundtrack (config s)) \<and>
     \<not> exists_path e (soundtrack_path s)"
  then show pa: "prepare_audio e s =
         (Inr [(''narration'', path_join (output_dir s) ''narration.wav'')], after_narration s)"
    by (simp add: prepare_audio_soundtrack_missing)
  show "warnings (trace (after_narration s)) = warnings (trace s)"
    by (simp add: after_narration_def trace_update_status warnings_append)
  have "output_dir (after_narration s) = output_dir s" by (simp add: after_narration_def)
  then show "\<exists>evs. trace (snd (process e s0)) =
          trace (after_narration s) @
          Write_Text (path_join (output_dir s) ''images_list.txt'')
            (images_list_text image_paths) # evs"
    using process_goes_on[OF assms pa] by simp
next
  assume a: "run e (narration_cmd s) = Exited 0 out \<and> truthy (selectedSoundtrack (config s)) \<and>
     exists_path e (soundtrack_path s) \<and>
     run e (soundtrack_cmd s) = Exited rc out' \<and> rc \<noteq> 0"
  let ?s' = "warn (''Warning: Error processing soundtrack: '' @ cpe_text e (soundtrack_cmd s) rc)
        ((after_narration s)\<lparr>trace := trace (after_narration s) @ [Run (soundtrack_cmd s)]\<rparr>)"
  have pa: "prepare_audio e s =
     (Inr [(''narration'', path_join (output_dir s) ''narration.wav'')], ?s')"
    using a by (simp add: prepare_audio_soundtrack_fails)
  have w: "warnings (trace ?s') = warnings (trace s) @
           [''Warning: Error processing soundtrack: '' @ cpe_text e (soundtrack_cmd s) rc]"
    by (simp add: warn_def after_narration_def trace_update_status warnings_append)
  have st: "statuses (trace ?s') = statuses (trace s) @ [(''processing'', 35)]"
    by (simp add: warn_def after_narration_def trace_update_status statuses_append)
  have "output_dir ?s' = output_dir s" by (simp add: warn_def after_narration_def output_dir_def
        project_dir_update_status)
  then have "\<exists>evs. trace (snd (process e s0)) =
            trace ?s' @
            Write_Text (path_join (output_dir s) ''images_list.txt'')
              (images_list_text image_paths) # evs"
    using process_goes_on[OF assms pa] by simp
  with pa w st show "\<exists>s'. prepare_audio e s =
           (Inr [(''narration'', path_join (output_dir s) ''narration.wav'')], s') \<and>
         warnings (trace s') = warnings (trace s) @
           [''Warning: Error processing soundtrack: '' @ cpe_text e (soundtrack_cmd s) rc] \<and>
         statuses (trace s') = statuses (trace s) @ [(''processing'', 35)] \<and>
         (\<exists>evs. trace (snd (process e s0)) =
            trace s' @
            Write_Text (path_join (output_dir s) ''images_list.txt'')
              (images_list_text image_paths) # evs)"
    by blast
qed

lemmas env_defs2 = env_defs env_soundtrack_missing_def env_narration_fails_def
  env_soundtrack_fails_def

text \<open>
  C6 as stated fails where it says that a missing soundtrack asset is dropped with a
  warning: with the soundtrack \<open>epic\<close> selected and its asset missing, the stage
  returns the narration alone and has printed nothing.
\<close>

theorem soundtrack_missing_counterexample:
  "truthy (selectedSoundtrack (config example_state)) \<and>
   \<not> exists_path env_soundtrack_missing ''public/sounds/epic.mp3'' \<and>
   fst (prepare_audio env_soundtrack_missing example_state) =
     Inr [(''narration'', ''proj/output/narration.wav'')] \<and>
   warnings (trace (snd (prepare_audio env_soundtrack_missing example_state))) = []"
  by (simp add: eval_defs env_defs2)

lemma same_project_audio:
  "same_project s s' \<Longrightarrow>
   narration_cmd s' = narration_cmd s \<and> soundtrack_path s' = soundtrack_path s \<and>
   soundtrack_cmd s' = soundtrack_cmd s \<and> output_dir s' = output_dir s \<and>
   selectedSoundtrack (config s') = selectedSoundtrack (config s)"
  by (simp add: same_project_def narration_cmd_def soundtrack_path_def soundtrack_cmd_def
      output_dir_def audio_dir_def)

lemma example_reaches_audio:
  assumes v: "validate_files e example_state = (True, validated_example)"
    and ok: "\<And>i out. \<exists>t. run e (Scale_Crop i out) = Exited 0 t"
    and mk: "mkdir_error e = (\<lambda>p. None)"
  shows "\<exists>ips s. prepare_images e validated_example = (Inr ips, s) \<and> ips \<noteq> [] \<and>
           same_project validated_example s"
proof -
  let ?ips = "map (\<lambda>k. path_join (processed_dir validated_example) (''img_'' @ pad2 k @ ''.jpg''))
            [0..<length (images (config validated_example))]"
  have "fst (prepare_images e validated_example) = Inr ?ips"
    by (rule prepare_images_all_ok[OF ok]) (simp add: mk)
  then have p: "prepare_images e validated_example =
      (Inr ?ips, snd (prepare_images e validated_example))"
    by (metis prod.collapse)
  have "length (images (config validated_example)) = 30"
    by (simp add: validated_example_def images_update_status example_state_def
        example_config_def example_images_def)
  then have "?ips \<noteq> []" by simp
  with p same_project_prepare_images[OF p] show ?thesis by blast
qed

lemma validated_example_audio:
  "selectedSoundtrack (config validated_example) = Some ''epic'' \<and>
   soundtrack_path validated_example = ''public/sounds/epic.mp3'' \<and>
   output_dir validated_example = ''proj/output''"
  by (simp add: validated_example_def soundtrack_path_def config_update_status output_dir_def
      project_dir_update_status path_join_def example_state_def example_config_def)

theorem audio_stage_failures_witness:
  "fst (process env_narration_fails example_state) = False \<and>
   (\<exists>s ls evs. trace (snd (process env_soundtrack_missing example_state)) =
      trace (after_narration s) @ Write_Text ''proj/output/images_list.txt'' ls # evs \<and>
      warnings (trace (after_narration s)) = warnings (trace s)) \<and>
   (\<exists>(s::state) (s'::state) ls evs. trace (snd (process env_soundtrack_fails example_state)) =
      trace s' @ Write_Text ''proj/output/images_list.txt'' ls # evs \<and>
      warnings (trace s') = warnings (trace s) @
        [''Warning: Error processing soundtrack: Command returned non-zero exit status 1''])"
proof -
  let ?ips = "map (\<lambda>k. path_join (processed_dir validated_example) (''img_'' @ pad2 k @ ''.jpg''))
            [0..<length (images (config validated_example))]"
  have "length (images (config validated_example)) = 30"
    by (simp add: validated_example_def images_update_status example_state_def
        example_config_def example_images_def)
  then have ne: "?ips \<noteq> []" by simp
  have reach: "prepare_images e validated_example =
      (Inr ?ips, snd (prepare_images e validated_example))"
    if "\<And>i out. \<exists>t. run e (Scale_Crop i out) = Exited 0 t" "mkdir_error e = (\<lambda>p. None)" for e
  proof -
    have "fst (prepare_images e validated_example) = Inr ?ips"
      by (rule prepare_images_all_ok[OF that(1)]) (simp add: that(2))
    then show ?thesis by (metis prod.collapse)
  qed
  have first: "fst (process env_narration_fails example_state) = False"
  proof -
    let ?e = env_narration_fails
    let ?s = "snd (prepare_images ?e validated_example)"
    have v: "validate_files ?e example_state = (True, validated_example)"
      by (simp add: validate_files_def validated_example_def example_state_def example_config_def
          example_images_def env_defs2)
    have p: "prepare_images ?e validated_example = (Inr ?ips, ?s)"
      by (rule reach) (simp_all add: env_defs2)
    have h: "run ?e (narration_cmd ?s) = Exited 1 [] \<and> (1::int) \<noteq> 0"
      by (simp add: narration_cmd_def env_defs2)
    show ?thesis using audio_stage_failures[OF v p ne, of 1 "[]"] h by simp
  qed
  have second: "\<exists>s ls evs. trace (snd (process env_soundtrack_missing example_state)) =
      trace (after_narration s) @ Write_Text ''proj/output/images_list.txt'' ls # evs \<and>
      warnings (trace (after_narration s)) = warnings (trace s)"
  proof -
    let ?e = env_soundtrack_missing
    let ?s = "snd (prepare_images ?e validated_example)"
    have v: "validate_files ?e example_state = (True, validated_example)"
      by (simp add: validate_files_def validated_example_def example_state_def example_config_def
          example_images_def images_dir_def audio_dir_def path_join_def env_defs2)
    have p: "prepare_images ?e validated_example = (Inr ?ips, ?s)"
      by (rule reach) (simp_all add: env_defs2)
    have sp: "same_project validated_example ?s" using p by (rule same_project_prepare_images)
    have h: "run ?e (narration_cmd ?s) = Exited 0 [] \<and> truthy (selectedSoundtrack (config ?s)) \<and>
        \<not> exists_path ?e (soundtrack_path ?s)"
      using same_project_audio[OF sp] validated_example_audio
      by (simp add: narration_cmd_def env_defs2)
    have o: "output_dir ?s = ''proj/output''"
      using same_project_audio[OF sp] validated_example_audio by simp
    have pj: "path_join (output_dir ?s) ''images_list.txt'' = ''proj/output/images_list.txt''"
      using o by (simp add: path_join_def)
    note T = audio_stage_failures[OF v p ne, of 0 "[]", THEN conjunct2, THEN conjunct1,
        THEN mp, OF h]
    from T show ?thesis
    proof (elim exE conjE)
      fix evs :: "event list"
      assume w: "warnings (trace (after_narration ?s)) = warnings (trace ?s)"
        and tr: "trace (snd (process ?e example_state)) =
          trace (after_narration ?s) @
          Write_Text (path_join (output_dir ?s) ''images_list.txt'') (images_list_text ?ips) # evs"
      have tr': "trace (snd (process ?e example_state)) =
          trace (after_narration ?s) @
          Write_Text ''proj/output/images_list.txt'' (images_list_text ?ips) # evs"
        using tr pj by simp
      show ?thesis by (intro exI conjI, rule tr', rule w)
    qed
  qed
  have third: "\<exists>(s::state) (s'::state) ls evs. trace (snd (process env_soundtrack_fails example_state)) =
      trace s' @ Write_Text ''proj/output/images_list.txt'' ls # evs \<and>
      warnings (trace s') = warnings (trace s) @
        [''Warning: Error processing soundtrack: Command returned non-zero exit status 1'']"
  proof -
    let ?e = env_soundtrack_fails
    let ?s = "snd (prepare_images ?e validated_example)"
    have v: "validate_files ?e example_state = (True, validated_example)"
      by (simp add: validate_files_def validated_example_def example_state_def example_config_def
          example_images_def env_defs2)
    have p: "prepare_images ?e validated_example = (Inr ?ips, ?s)"
      by (rule reach) (simp_all add: env_defs2)
    have sp: "same_project validated_example ?s" using p by (rule same_project_prepare_images)
    have h: "run ?e (narration_cmd ?s) = Exited 0 [] \<and> truthy (selectedSoundtrack (config ?s)) \<and>
        exists_path ?e (soundtrack_path ?s) \<and>
        run ?e (soundtrack_cmd ?s) = Exited 1 [] \<and> (1::int) \<noteq> 0"
      using same_project_audio[OF sp] validated_example_audio
      by (simp add: narration_cmd_def soundtrack_cmd_def env_defs2)
    have o: "output_dir ?s = ''proj/output''"
      using same_project_audio[OF sp] validated_example_audio by simp
    have c: "cpe_text ?e (soundtrack_cmd ?s) 1 = ''Command returned non-zero exit status 1''"
      by (simp add: env_defs2 str_nat.simps digit_char_def)
    note T = audio_stage_failures[OF v p ne, of 1 "[]" "[]", THEN conjunct2, THEN conjunct2,
        THEN mp, OF h]
    have pj: "path_join (output_dir ?s) ''images_list.txt'' = ''proj/output/images_list.txt''"
      using o by (simp add: path_join_def)
    from T show ?thesis
    proof (elim exE conjE)
      fix s' :: state and evs :: "event list"
      assume w: "warnings (trace s') = warnings (trace ?s) @
           [''Warning: Error processing soundtrack: '' @ cpe_text ?e (soundtrack_cmd ?s) 1]"
        and tr: "trace (snd (process ?e example_state)) =
            trace s' @ Write_Text (path_join (output_dir ?s) ''images_list.txt'')
              (images_list_text ?ips) # evs"
      have w': "warnings (trace s') = warnings (trace ?s) @
           [''Warning: Error processing soundtrack: Command returned non-zero exit status 1'']"
        using w c by simp
      have tr': "trace (snd (process ?e example_state)) =
            trace s' @ Write_Text ''proj/output/images_list.txt'' (images_list_text ?ips) # evs"
        using tr pj by simp
      show ?thesis by (intro exI conjI, rule tr', rule w')
    qed
  qed
  show ?thesis using first second third by blast
qed

section \<open>Exceptions\<close>

lemma process_handler:
  "process_try e s = (Inl x, s') \<Longrightarrow>
   process e s = (False, update_status ''error'' 0 (''Error inesperado: '' @ str_exn x) s')"
  by (simp add: process_def)




section \<open>Fade-out finalization\<close>

text \<open>
  When the probe or the fade ends with a return code other than 0, the stage returns the
  path it was given.
\<close>

lemma add_fade_out_probe_fails:
  "run e (Probe_Duration v) = Exited rc out \<Longrightarrow> rc \<noteq> 0 \<Longrightarrow>
   fst (add_fade_out e v s) = Inr v"
  by (simp add: add_fade_out_def run_checked_eq run_result_failed Let_def)

lemma add_fade_out_fade_fails:
  "run e (Probe_Duration v) = Exited 0 out \<Longrightarrow> parse_float e (strip out) = Some d \<Longrightarrow>
   run e (Fade_Out v (d - 3 / 2) (path_join (output_dir s) ''final_video.mp4'')) = Exited rc out' \<Longrightarrow>
   rc \<noteq> 0 \<Longrightarrow> fst (add_fade_out e v s) = Inr v"
  by (simp add: add_fade_out_def run_checked_eq run_result_ok run_result_failed Let_def
      output_dir_def)

lemma example_probe_na_raises:
  "fst (process_try env_probe_na example_state) =
     Inl (ValueError (''could not convert string to float: '' @ quoted ''N/A''))"
  by (simp add: eval_defs quoted_def env_defs env_probe_na_def)

text \<open>
  C5 at an input where the code departs from it: the probe ends with return code 0 and
  prints \<open>N/A\<close>. \<^verbatim>\<open>float\<close> raises \<^verbatim>\<open>ValueError\<close>, which the stage does not catch; the
  stage does not return the path it was given, and the run ends in \<open>error\<close>.
\<close>

theorem probe_output_not_a_number:
  "fst (add_fade_out env_probe_na ''proj/output/with_audio.mp4'' example_state) =
     Inl (ValueError (''could not convert string to float: '' @ quoted ''N/A'')) \<and>
   fst (process env_probe_na example_state) = False \<and>
   status (config (snd (process env_probe_na example_state))) = Some ''error'' \<and>
   progress (config (snd (process env_probe_na example_state))) = Some 0 \<and>
   message (config (snd (process env_probe_na example_state))) =
     Some (''Error inesperado: could not convert string to float: '' @ quoted ''N/A'')"
proof -
  have a: "fst (add_fade_out env_probe_na ''proj/output/with_audio.mp4'' example_state) =
     Inl (ValueError (''could not convert string to float: '' @ quoted ''N/A''))"
    by (simp add: add_fade_out_def run_checked_def strip_def is_space_def quoted_def Let_def
        env_defs env_probe_na_def)
  have "process_try env_probe_na example_state =
      (Inl (ValueError (''could not convert string to float: '' @ quoted ''N/A'')),
       snd (process_try env_probe_na example_state))"
    using example_probe_na_raises by (metis prod.collapse)
  then have "process env_probe_na example_state =
      (False, update_status ''error'' 0
         (''Error inesperado: '' @ str_exn (ValueError (''could not convert string to float: '' @ quoted ''N/A'')))
         (snd (process_try env_probe_na example_state)))"
    by (rule process_handler)
  then show ?thesis using a by (simp add: config_update_status quoted_def)
qed

end
